theory Spec2Isabelle
  imports Main "HOL-Library.Monad_Syntax"
begin

section \<open>Python floats (IEEE 754 binary64)\<close>

text \<open>
  The scripts compute with Python \<^verbatim>\<open>float\<close>s: they read them from text with
  \<^verbatim>\<open>float(...)\<close>, multiply, add and halve them, compare them with \<^verbatim>\<open>0.0\<close> and print
  them with the format \<^verbatim>\<open>.8f\<close>. A finite float is kept as \<open>Fin m e\<close>, the number
  \<open>m * 2 ^ e\<close> with \<open>m\<close> odd (zero is \<open>Fin 0 0\<close>), so that equal numbers are equal
  terms; negative zero, the infinities and not-a-number are values of their own.
  Every operation computes the exact result and rounds it once, to the nearest
  representable number and to the even one of two nearest, as the hardware and
  CPython's conversions do.
\<close>

datatype pyfloat = Fin int int | NegZero | PInf | NInf | NaN

fun bitlen :: "nat \<Rightarrow> nat" where
  "bitlen n = (if n = 0 then 0 else bitlen (n div 2) + 1)"

declare bitlen.simps [simp del]

function norm_odd :: "nat \<Rightarrow> int \<Rightarrow> nat \<times> int" where
  "norm_odd m e =
     (if m = 0 then (0, 0)
      else if even m then norm_odd (m div 2) (e + 1)
      else (m, e))"
  by pat_completeness auto
termination
  by (relation "measure (\<lambda>(m, e). m)") auto

declare norm_odd.simps [simp del]

text \<open>\<open>rhe_div a b\<close> is the integer nearest to \<open>a / b\<close>, the even one at a tie.\<close>

definition rhe_div :: "nat \<Rightarrow> nat \<Rightarrow> nat" where
  "rhe_div a b =
     (let q = a div b; r = a mod b
      in if 2 * r < b then q
         else if b < 2 * r then q + 1
         else if even q then q else q + 1)"

definition signed_zero :: "bool \<Rightarrow> pyfloat" where
  "signed_zero neg = (if neg then NegZero else Fin 0 0)"

definition signed_inf :: "bool \<Rightarrow> pyfloat" where
  "signed_inf neg = (if neg then NInf else PInf)"

definition mk_fin :: "bool \<Rightarrow> nat \<Rightarrow> int \<Rightarrow> pyfloat" where
  "mk_fin neg n e =
     (let p = norm_odd n e
      in Fin (if neg then - int (fst p) else int (fst p)) (snd p))"

text \<open>
  \<open>round_ratio neg a b\<close> is the float nearest to \<open>a / b\<close> (\<open>b\<close> positive), negated when
  \<open>neg\<close>: 53 significant bits, exponents down to the subnormal range, infinity
  from \<open>2 ^ 1024\<close> on.
\<close>

definition round_ratio :: "bool \<Rightarrow> nat \<Rightarrow> nat \<Rightarrow> pyfloat" where
  "round_ratio neg a b =
     (if a = 0 then signed_zero neg
      else
        let d = int (bitlen a) - int (bitlen b);
            E = (if (if 0 \<le> d then b * 2 ^ nat d \<le> a else b \<le> a * 2 ^ nat (- d))
                 then d else d - 1);
            e = max E (- 1022) - 52;
            n = (if 0 \<le> e then rhe_div a (b * 2 ^ nat e)
                 else rhe_div (a * 2 ^ nat (- e)) b)
        in if n = 0 then signed_zero neg
           else if 971 < e \<or> (e = 971 \<and> 2 ^ 53 \<le> n) then signed_inf neg
           else mk_fin neg n e)"

text \<open>\<open>round_scaled neg a e\<close> rounds \<open>a * 2 ^ e\<close>.\<close>

definition round_scaled :: "bool \<Rightarrow> nat \<Rightarrow> int \<Rightarrow> pyfloat" where
  "round_scaled neg a e =
     (if 0 \<le> e then round_ratio neg (a * 2 ^ nat e) 1
      else round_ratio neg a (2 ^ nat (- e)))"

fun is_nan :: "pyfloat \<Rightarrow> bool" where
  "is_nan NaN = True"
| "is_nan _ = False"

fun is_inf :: "pyfloat \<Rightarrow> bool" where
  "is_inf PInf = True"
| "is_inf NInf = True"
| "is_inf _ = False"

fun is_zero :: "pyfloat \<Rightarrow> bool" where
  "is_zero (Fin m e) = (m = 0)"
| "is_zero NegZero = True"
| "is_zero _ = False"

fun sign_neg :: "pyfloat \<Rightarrow> bool" where
  "sign_neg (Fin m e) = (m < 0)"
| "sign_neg NegZero = True"
| "sign_neg NInf = True"
| "sign_neg _ = False"

fun mant :: "pyfloat \<Rightarrow> int" where
  "mant (Fin m e) = m"
| "mant _ = 0"

fun expo :: "pyfloat \<Rightarrow> int" where
  "expo (Fin m e) = e"
| "expo _ = 0"

text \<open>Python's \<^verbatim>\<open>a == b\<close> on floats: the two zeros are equal, \<^verbatim>\<open>nan\<close> equals nothing.\<close>

definition float_eq :: "pyfloat \<Rightarrow> pyfloat \<Rightarrow> bool" where
  "float_eq a b =
     (if is_nan a \<or> is_nan b then False
      else if is_zero a \<and> is_zero b then True
      else a = b)"

text \<open>Python's \<^verbatim>\<open>a * b\<close> on floats.\<close>

definition float_mul :: "pyfloat \<Rightarrow> pyfloat \<Rightarrow> pyfloat" where
  "float_mul a b =
     (let neg = (sign_neg a \<noteq> sign_neg b)
      in if is_nan a \<or> is_nan b then NaN
         else if is_inf a \<or> is_inf b then
           (if is_zero a \<or> is_zero b then NaN else signed_inf neg)
         else if is_zero a \<or> is_zero b then signed_zero neg
         else round_scaled neg (nat \<bar>mant a\<bar> * nat \<bar>mant b\<bar>) (expo a + expo b))"

text \<open>Python's \<^verbatim>\<open>a + b\<close> on floats.\<close>

definition float_add :: "pyfloat \<Rightarrow> pyfloat \<Rightarrow> pyfloat" where
  "float_add a b =
     (if is_nan a \<or> is_nan b then NaN
      else if is_inf a then (if is_inf b \<and> a \<noteq> b then NaN else a)
      else if is_inf b then b
      else if a = NegZero then b
      else if b = NegZero then a
      else
        let e = min (expo a) (expo b);
            s = mant a * 2 ^ nat (expo a - e) + mant b * 2 ^ nat (expo b - e)
        in round_scaled (s < 0) (nat \<bar>s\<bar>) e)"

text \<open>
  The exceptions of the model. \<open>RuntimeError\<close> is what the script raises for a header
  it cannot use; the last two are the \<^verbatim>\<open>ValueError\<close>s the loaders raise themselves
  for a document of the wrong shape, kept apart from the library's.
\<close>

datatype exn =
  ValueError | TypeError | AttributeError | OverflowError | ZeroDivisionError | RuntimeError
  | Unexpected_JSON_structure | Expected_list_of_OHLC

text \<open>Python's \<^verbatim>\<open>a / b\<close> on floats; a zero divisor raises.\<close>

definition float_truediv :: "pyfloat \<Rightarrow> pyfloat \<Rightarrow> exn + pyfloat" where
  "float_truediv a b =
     (let neg = (sign_neg a \<noteq> sign_neg b)
      in if is_zero b then Inl ZeroDivisionError
         else if is_nan a \<or> is_nan b then Inr NaN
         else if is_inf a then (if is_inf b then Inr NaN else Inr (signed_inf neg))
         else if is_inf b \<or> is_zero a then Inr (signed_zero neg)
         else Inr (round_ratio neg (nat \<bar>mant a\<bar> * 2 ^ nat (expo a - expo b))
                                   (nat \<bar>mant b\<bar> * 2 ^ nat (expo b - expo a))))"

text \<open>\<^verbatim>\<open>float(n)\<close> for an integer: rounded, \<^verbatim>\<open>OverflowError\<close> beyond the largest float.\<close>

definition float_of_int :: "int \<Rightarrow> exn + pyfloat" where
  "float_of_int n =
     (let r = round_ratio (n < 0) (nat \<bar>n\<bar>) 1
      in if is_inf r then Inl OverflowError else Inr r)"

text \<open>\<^verbatim>\<open>int(x)\<close> for a float: truncation towards zero.\<close>

fun int_of_float :: "pyfloat \<Rightarrow> exn + int" where
  "int_of_float (Fin m e) =
     Inr (if 0 \<le> e then m * 2 ^ nat e
          else if 0 \<le> m then m div 2 ^ nat (- e)
          else - ((- m) div 2 ^ nat (- e)))"
| "int_of_float NegZero = Inr 0"
| "int_of_float NaN = Inl ValueError"
| "int_of_float _ = Inl OverflowError"

section \<open>Strings\<close>

text \<open>
  A Python \<^verbatim>\<open>str\<close> is a list of characters; the model covers the code points
  below 256. \<open>is_space\<close> is \<^verbatim>\<open>str.isspace\<close> on them, also the class \<^verbatim>\<open>\s\<close> of the
  regular expressions \<^verbatim>\<open>strptime\<close> builds, and \<open>strip\<close> is \<^verbatim>\<open>str.strip()\<close>.
\<close>

definition is_digit :: "char \<Rightarrow> bool" where
  "is_digit c \<longleftrightarrow> c \<in> set ''0123456789''"

definition digit_val :: "char \<Rightarrow> nat" where
  "digit_val c = of_char c - 48"

definition digit_char :: "nat \<Rightarrow> char" where
  "digit_char n = ''0123456789'' ! n"

definition nat_of_digits :: "string \<Rightarrow> nat" where
  "nat_of_digits ds = foldl (\<lambda>n c. 10 * n + digit_val c) 0 ds"

definition is_space :: "char \<Rightarrow> bool" where
  "is_space c \<longleftrightarrow> (of_char c :: nat) \<in> {9, 10, 11, 12, 13, 28, 29, 30, 31, 32, 133, 160}"

definition strip_by :: "(char \<Rightarrow> bool) \<Rightarrow> string \<Rightarrow> string" where
  "strip_by sp s = rev (dropWhile sp (rev (dropWhile sp s)))"

definition strip :: "string \<Rightarrow> string" where
  "strip s = strip_by is_space s"

text \<open>
  \<^verbatim>\<open>float(s)\<close> and \<^verbatim>\<open>int(s)\<close> drop white space around the number themselves; for
  them the four separator characters \<^verbatim>\<open>\x1c\<close> to \<^verbatim>\<open>\x1f\<close> are no white space.
\<close>

definition is_number_space :: "char \<Rightarrow> bool" where
  "is_number_space c \<longleftrightarrow> (of_char c :: nat) \<in> {9, 10, 11, 12, 13, 32, 133, 160}"

definition to_lower :: "char \<Rightarrow> char" where
  "to_lower c =
     (case map_of (zip ''ABCDEFGHIJKLMNOPQRSTUVWXYZ'' ''abcdefghijklmnopqrstuvwxyz'') c of
        None \<Rightarrow> c
      | Some l \<Rightarrow> l)"

function show_nat :: "nat \<Rightarrow> string" where
  "show_nat n = (if n < 10 then [digit_char n] else show_nat (n div 10) @ [digit_char (n mod 10)])"
  by pat_completeness auto
termination
  by (relation "measure (\<lambda>n. n)") auto

declare show_nat.simps [simp del]

definition zfill :: "nat \<Rightarrow> string \<Rightarrow> string" where
  "zfill k s = replicate (k - length s) CHR ''0'' @ s"

fun split_sign :: "string \<Rightarrow> bool \<times> string" where
  "split_sign [] = (False, [])"
| "split_sign (c # r) =
     (if c = CHR ''-'' then (True, r)
      else if c = CHR ''+'' then (False, r)
      else (False, c # r))"

section \<open>Reading and printing floats\<close>

text \<open>
  \<^verbatim>\<open>float(s)\<close> for a string: white space around it is dropped; an underscore may
  stand only between two digits; then come an optional sign and either
  \<^verbatim>\<open>inf\<close>, \<^verbatim>\<open>infinity\<close> or \<^verbatim>\<open>nan\<close> in any case, or decimal digits with an
  optional point and an optional exponent. Anything else is a \<^verbatim>\<open>ValueError\<close>,
  here \<open>None\<close>. The decimal number read is rounded once.
\<close>

fun us_ok :: "char \<Rightarrow> string \<Rightarrow> bool" where
  "us_ok prev [] = (prev \<noteq> CHR ''_'')"
| "us_ok prev (c # cs) =
     ((if c = CHR ''_'' then is_digit prev else (prev \<noteq> CHR ''_'' \<or> is_digit c))
      \<and> us_ok c cs)"

text \<open>
  \<open>parse_decimal s\<close> reads \<^verbatim>\<open>digits[.digits][e[sign]digits]\<close> (one of the digit
  runs around the point may be empty) and returns \<open>(D, k)\<close> for the number
  \<open>D * 10 ^ k\<close>.
\<close>

definition parse_decimal :: "string \<Rightarrow> (nat \<times> int) option" where
  "parse_decimal s =
     (let ip = takeWhile is_digit s;
          r1 = dropWhile is_digit s;
          has_dot = (r1 \<noteq> [] \<and> hd r1 = CHR ''.'');
          fp = (if has_dot then takeWhile is_digit (tl r1) else []);
          r2 = (if has_dot then dropWhile is_digit (tl r1) else r1);
          D = nat_of_digits (ip @ fp)
      in if ip = [] \<and> fp = [] then None
         else if r2 = [] then Some (D, - int (length fp))
         else if hd r2 = CHR ''e'' \<or> hd r2 = CHR ''E'' then
           (let sg = split_sign (tl r2);
                ds = snd sg
            in if ds = [] \<or> \<not> list_all is_digit ds then None
               else Some (D, (if fst sg then - int (nat_of_digits ds) else int (nat_of_digits ds))
                             - int (length fp)))
         else None)"

definition float_of_str :: "string \<Rightarrow> pyfloat option" where
  "float_of_str s =
     (let t = strip_by is_number_space s
      in if \<not> us_ok (CHR 0x00) t then None
         else
           let sg = split_sign (filter (\<lambda>c. c \<noteq> CHR ''_'') t);
               neg = fst sg;
               body = map to_lower (snd sg)
           in if body = ''inf'' \<or> body = ''infinity'' then Some (signed_inf neg)
              else if body = ''nan'' then Some NaN
              else
                (case parse_decimal (snd sg) of
                   None \<Rightarrow> None
                 | Some p \<Rightarrow>
                     Some (if 0 \<le> snd p then round_ratio neg (fst p * 10 ^ nat (snd p)) 1
                           else round_ratio neg (fst p) (10 ^ nat (- snd p)))))"

text \<open>
  The format \<^verbatim>\<open>f"{x:.8f}"\<close>: the exact value of the float, rounded to eight
  decimal places (to the even digit at a tie), the sign kept also when the digits
  are all zero.
\<close>

definition format_8f :: "pyfloat \<Rightarrow> string" where
  "format_8f x =
     (if is_nan x then ''nan''
      else if is_inf x then (if sign_neg x then ''-inf'' else ''inf'')
      else
        let N = (if 0 \<le> expo x then nat \<bar>mant x\<bar> * 2 ^ nat (expo x) * 10 ^ 8
                 else rhe_div (nat \<bar>mant x\<bar> * 10 ^ 8) (2 ^ nat (- expo x)))
        in (if sign_neg x then ''-'' else '''')
           @ show_nat (N div 10 ^ 8) @ ''.'' @ zfill 8 (show_nat (N mod 10 ^ 8)))"

section \<open>Dates and timestamps\<close>

text \<open>
  A \<^verbatim>\<open>datetime.date\<close> is year, month and day; of a \<^verbatim>\<open>datetime.datetime\<close> the
  scripts use the date only, so the model keeps date, hour, minute and second and
  leaves out the microsecond and the time zone. \<open>isoformat\<close> is \<^verbatim>\<open>date.isoformat()\<close>.
\<close>

datatype date = Date nat nat nat

datatype datetime = DateTime date nat nat nat

fun date_of :: "datetime \<Rightarrow> date" where
  "date_of (DateTime d h mi s) = d"

definition is_leap :: "nat \<Rightarrow> bool" where
  "is_leap y \<longleftrightarrow> y mod 4 = 0 \<and> (y mod 100 \<noteq> 0 \<or> y mod 400 = 0)"

definition days_in_month :: "nat \<Rightarrow> nat \<Rightarrow> nat" where
  "days_in_month y m =
     (if m = 2 then (if is_leap y then 29 else 28)
      else if m = 4 \<or> m = 6 \<or> m = 9 \<or> m = 11 then 30
      else 31)"

definition valid_date :: "nat \<Rightarrow> nat \<Rightarrow> nat \<Rightarrow> bool" where
  "valid_date y m d \<longleftrightarrow>
     1 \<le> y \<and> y \<le> 9999 \<and> 1 \<le> m \<and> m \<le> 12 \<and> 1 \<le> d \<and> d \<le> days_in_month y m"

fun isoformat :: "date \<Rightarrow> string" where
  "isoformat (Date y m d) =
     zfill 4 (show_nat y) @ ''-'' @ zfill 2 (show_nat m) @ ''-'' @ zfill 2 (show_nat d)"

declare isoformat.simps [simp del]

subsection \<open>\<^verbatim>\<open>datetime.strptime(s, "%Y-%m-%d %H:%M:%S")\<close>\<close>

text \<open>
  \<^verbatim>\<open>strptime\<close> turns the format into a regular expression, matches it at the
  start of the string and refuses a match that leaves text over. The directives
  stand for
  \<^verbatim>\<open>%Y = \d\d\d\d\<close>, \<^verbatim>\<open>%m = 1[0-2]|0[1-9]|[1-9]\<close>,
  \<^verbatim>\<open>%d = 3[01]|[12]\d|0[1-9]|[1-9]| [1-9]\<close>, \<^verbatim>\<open>%H = 2[0-3]|[0-1]\d|\d\<close>,
  \<^verbatim>\<open>%M = [0-5]\d|\d\<close>, \<^verbatim>\<open>%S = 6[01]|[0-5]\d|\d\<close>,
  and the blank of the format for \<^verbatim>\<open>\s+\<close>. Every field is followed by a character
  that is no digit (or by the end), so trying the two-character alternatives
  before the one-character ones, as the expression does, decides the match. The
  fields found are then given to the \<^verbatim>\<open>datetime\<close> constructor, which refuses a
  year 0, a day the month does not have and a second above 59.
\<close>

fun digit_pair :: "(nat \<Rightarrow> nat \<Rightarrow> bool) \<Rightarrow> string \<Rightarrow> (nat \<times> string) option" where
  "digit_pair ok (c1 # c2 # r) =
     (if is_digit c1 \<and> is_digit c2 \<and> ok (digit_val c1) (digit_val c2)
      then Some (10 * digit_val c1 + digit_val c2, r) else None)"
| "digit_pair ok _ = None"

fun digit_one :: "(nat \<Rightarrow> bool) \<Rightarrow> string \<Rightarrow> (nat \<times> string) option" where
  "digit_one ok (c # r) = (if is_digit c \<and> ok (digit_val c) then Some (digit_val c, r) else None)"
| "digit_one ok [] = None"

definition field :: "(nat \<Rightarrow> nat \<Rightarrow> bool) \<Rightarrow> (nat \<Rightarrow> bool) \<Rightarrow> string \<Rightarrow> (nat \<times> string) option" where
  "field ok2 ok1 s = (case digit_pair ok2 s of Some r \<Rightarrow> Some r | None \<Rightarrow> digit_one ok1 s)"

definition year_field :: "string \<Rightarrow> (nat \<times> string) option" where
  "year_field s =
     (if 4 \<le> length s \<and> list_all is_digit (take 4 s)
      then Some (nat_of_digits (take 4 s), drop 4 s) else None)"

definition month_field :: "string \<Rightarrow> (nat \<times> string) option" where
  "month_field = field (\<lambda>a b. (a = 1 \<and> b \<le> 2) \<or> (a = 0 \<and> 1 \<le> b)) (\<lambda>a. 1 \<le> a)"

fun blank_digit :: "string \<Rightarrow> (nat \<times> string) option" where
  "blank_digit (c # r) = (if c = CHR '' '' then digit_one (\<lambda>a. 1 \<le> a) r else None)"
| "blank_digit [] = None"

definition day_field :: "string \<Rightarrow> (nat \<times> string) option" where
  "day_field s =
     (case field (\<lambda>a b. (a = 3 \<and> b \<le> 1) \<or> a = 1 \<or> a = 2 \<or> (a = 0 \<and> 1 \<le> b)) (\<lambda>a. 1 \<le> a) s of
        Some r \<Rightarrow> Some r
      | None \<Rightarrow> blank_digit s)"

definition hour_field :: "string \<Rightarrow> (nat \<times> string) option" where
  "hour_field = field (\<lambda>a b. (a = 2 \<and> b \<le> 3) \<or> a \<le> 1) (\<lambda>a. True)"

definition minute_field :: "string \<Rightarrow> (nat \<times> string) option" where
  "minute_field = field (\<lambda>a b. a \<le> 5) (\<lambda>a. True)"

definition second_field :: "string \<Rightarrow> (nat \<times> string) option" where
  "second_field = field (\<lambda>a b. (a = 6 \<and> b \<le> 1) \<or> a \<le> 5) (\<lambda>a. True)"

fun literal :: "char \<Rightarrow> string \<Rightarrow> string option" where
  "literal c (x # r) = (if x = c then Some r else None)"
| "literal c [] = None"

fun spaces :: "string \<Rightarrow> string option" where
  "spaces (x # r) = (if is_space x then Some (dropWhile is_space r) else None)"
| "spaces [] = None"

definition strptime :: "string \<Rightarrow> datetime option" where
  "strptime s =
     do {
       y \<leftarrow> year_field s;
       r1 \<leftarrow> literal CHR ''-'' (snd y);
       m \<leftarrow> month_field r1;
       r2 \<leftarrow> literal CHR ''-'' (snd m);
       d \<leftarrow> day_field r2;
       r3 \<leftarrow> spaces (snd d);
       H \<leftarrow> hour_field r3;
       r4 \<leftarrow> literal CHR '':'' (snd H);
       M \<leftarrow> minute_field r4;
       r5 \<leftarrow> literal CHR '':'' (snd M);
       S \<leftarrow> second_field r5;
       if snd S = [] \<and> valid_date (fst y) (fst m) (fst d) \<and> fst S \<le> 59
       then Some (DateTime (Date (fst y) (fst m) (fst d)) (fst H) (fst M) (fst S))
       else None
     }"

subsection \<open>\<^verbatim>\<open>datetime.utcfromtimestamp(t)\<close>\<close>

text \<open>
  The day number \<open>z\<close> counts days from 1970-01-01; \<open>civil_from_days\<close> is its date in
  the proleptic Gregorian calendar (the year may fall outside 1..9999).
\<close>

definition civil_from_days :: "int \<Rightarrow> int \<times> int \<times> int" where
  "civil_from_days z0 =
     (let z = z0 + 719468;
          era = z div 146097;
          doe = z - era * 146097;
          yoe = (doe - doe div 1460 + doe div 36524 - doe div 146096) div 365;
          doy = doe - (365 * yoe + yoe div 4 - yoe div 100);
          mp = (5 * doy + 2) div 153;
          d = doy - (153 * mp + 2) div 5 + 1;
          m = (if mp < 10 then mp + 3 else mp - 9);
          y = yoe + era * 400 + (if m \<le> 2 then 1 else 0)
      in (y, m, d))"

text \<open>
  CPython splits the float into its whole seconds and its fraction, multiplies the
  fraction by \<open>10 ^ 6\<close> as a float, rounds the product to an integer of
  microseconds (to the even one at a tie) and carries into the seconds.
\<close>

definition frac_part :: "pyfloat \<Rightarrow> pyfloat" where
  "frac_part t =
     (if 0 \<le> expo t then signed_zero (sign_neg t)
      else round_scaled (sign_neg t) (nat \<bar>mant t\<bar> mod 2 ^ nat (- expo t)) (expo t))"

definition round_to_int :: "pyfloat \<Rightarrow> int" where
  "round_to_int x =
     (let n = (if 0 \<le> expo x then nat \<bar>mant x\<bar> * 2 ^ nat (expo x)
               else rhe_div (nat \<bar>mant x\<bar>) (2 ^ nat (- expo x)))
      in if sign_neg x then - int n else int n)"

definition timestamp_seconds :: "pyfloat \<Rightarrow> exn + int" where
  "timestamp_seconds t =
     (case int_of_float t of
        Inl e \<Rightarrow> Inl e
      | Inr whole \<Rightarrow>
          (let us = round_to_int (float_mul (frac_part t) (Fin 15625 6))
           in Inr (if 1000000 \<le> us then whole + 1 else if us < 0 then whole - 1 else whole)))"

text \<open>
  A timestamp whose year is not in 1..9999 is refused; CPython reports that as
  \<^verbatim>\<open>ValueError\<close>, \<^verbatim>\<open>OverflowError\<close> or \<^verbatim>\<open>OSError\<close> depending on how far out of
  range it is, the model as \<open>ValueError\<close> throughout.
\<close>

definition utcfromtimestamp :: "pyfloat \<Rightarrow> exn + datetime" where
  "utcfromtimestamp t =
     (case timestamp_seconds t of
        Inl e \<Rightarrow> Inl e
      | Inr secs \<Rightarrow>
          (let ymd = civil_from_days (secs div 86400);
               y = fst ymd;
               sod = secs mod 86400
           in if 1 \<le> y \<and> y \<le> 9999
              then Inr (DateTime (Date (nat y) (nat (fst (snd ymd))) (nat (snd (snd ymd))))
                          (nat (sod div 3600)) (nat (sod mod 3600 div 60)) (nat (sod mod 60)))
              else Inl ValueError))"

section \<open>JSON documents\<close>

text \<open>
  What \<^verbatim>\<open>json.load\<close> returns: \<^verbatim>\<open>None\<close>, a bool, an int, a float, a string, a list
  or a dict (its items in order). The loaders below take the parsed document;
  opening and decoding the file is outside the model.
\<close>

datatype json =
  JNull | JBool bool | JInt int | JFloat pyfloat | JStr string
  | JList "json list" | JDict "(string \<times> json) list"

text \<open>
  \<^verbatim>\<open>v.get(k)\<close> and \<^verbatim>\<open>v.get(k, d)\<close>: only a dict has the method; a missing key gives
  \<^verbatim>\<open>None\<close> (here \<open>JNull\<close>) or the default.
\<close>

fun dict_get :: "json \<Rightarrow> string \<Rightarrow> exn + json" where
  "dict_get (JDict kvs) k = Inr (case map_of kvs k of None \<Rightarrow> JNull | Some v \<Rightarrow> v)"
| "dict_get _ k = Inl AttributeError"

fun dict_get_default :: "json \<Rightarrow> string \<Rightarrow> json \<Rightarrow> exn + json" where
  "dict_get_default (JDict kvs) k d = Inr (case map_of kvs k of None \<Rightarrow> d | Some v \<Rightarrow> v)"
| "dict_get_default _ k d = Inl AttributeError"

text \<open>What a \<^verbatim>\<open>for\<close> loop iterates over: a list's items, a dict's keys, a string's characters.\<close>

fun py_iter :: "json \<Rightarrow> exn + json list" where
  "py_iter (JList es) = Inr es"
| "py_iter (JDict kvs) = Inr (map (\<lambda>kv. JStr (fst kv)) kvs)"
| "py_iter (JStr s) = Inr (map (\<lambda>c. JStr [c]) s)"
| "py_iter _ = Inl TypeError"

text \<open>A \<^verbatim>\<open>for\<close> loop whose body may raise: the first exception ends the loop.\<close>

fun for_each :: "('a \<Rightarrow> 's \<Rightarrow> exn + 's) \<Rightarrow> 'a list \<Rightarrow> 's \<Rightarrow> exn + 's" where
  "for_each body [] s = Inr s"
| "for_each body (x # xs) s =
     (case body x s of Inl e \<Rightarrow> Inl e | Inr s' \<Rightarrow> for_each body xs s')"

text \<open>\<^verbatim>\<open>float(v)\<close> and \<^verbatim>\<open>int(v)\<close> on a JSON value.\<close>

fun float_of_json :: "json \<Rightarrow> exn + pyfloat" where
  "float_of_json (JFloat x) = Inr x"
| "float_of_json (JInt n) = float_of_int n"
| "float_of_json (JBool b) = Inr (if b then Fin 1 0 else Fin 0 0)"
| "float_of_json (JStr s) = (case float_of_str s of None \<Rightarrow> Inl ValueError | Some x \<Rightarrow> Inr x)"
| "float_of_json _ = Inl TypeError"

definition int_of_str :: "string \<Rightarrow> int option" where
  "int_of_str s =
     (let t = strip_by is_number_space s
      in if \<not> us_ok (CHR 0x00) t then None
         else
           let sg = split_sign (filter (\<lambda>c. c \<noteq> CHR ''_'') t);
               ds = snd sg
           in if ds = [] \<or> \<not> list_all is_digit ds then None
              else Some (if fst sg then - int (nat_of_digits ds) else int (nat_of_digits ds)))"

fun int_of_json :: "json \<Rightarrow> exn + int" where
  "int_of_json (JInt n) = Inr n"
| "int_of_json (JBool b) = Inr (if b then 1 else 0)"
| "int_of_json (JFloat x) = int_of_float x"
| "int_of_json (JStr s) = (case int_of_str s of None \<Rightarrow> Inl ValueError | Some n \<Rightarrow> Inr n)"
| "int_of_json _ = Inl TypeError"

section \<open>The price map builder\<close>

text \<open>
  A price map is the dict from \<^verbatim>\<open>'YYYY-MM-DD'\<close> to a price. The loaders of
  \<^verbatim>\<open>update_networth_multi.py\<close> print a warning for an entry they give up on; the
  model returns the warnings beside the map, in the order printed (the summary
  line each loader prints at its end is left out).
\<close>

type_synonym price_map = "string \<rightharpoonup> pyfloat"

datatype warning = XY_warning string | MAG_warning json | XRP_warning json

text \<open>
  Two functions of the interpreter are parameters of the model. \<open>repr_of\<close> is
  \<^verbatim>\<open>str(v)\<close> for a JSON value that is not a string (the text of a number, a list, a
  dict). \<open>fromisoformat\<close> is \<^verbatim>\<open>datetime.fromisoformat\<close>, \<open>None\<close> standing for its
  \<^verbatim>\<open>ValueError\<close>: which strings it accepts depends on the version of the
  interpreter, so the loaders are modelled for every such function.
\<close>

record pylib =
  repr_of :: "json \<Rightarrow> string"
  fromisoformat :: "string \<Rightarrow> datetime option"

fun str_of :: "pylib \<Rightarrow> json \<Rightarrow> string" where
  "str_of L (JStr s) = s"
| "str_of L v = repr_of L v"

text \<open>
  The timestamp's part of each \<^verbatim>\<open>try\<close> block: a trailing \<^verbatim>\<open>Z\<close> is cut off, the rest
  parsed, the result cut down to its date and printed as the key.
\<close>

definition strip_Z :: "string \<Rightarrow> string" where
  "strip_Z ts_str = (if ts_str \<noteq> [] \<and> last ts_str = CHR ''Z'' then butlast ts_str else ts_str)"

definition iso_date_key :: "pylib \<Rightarrow> string \<Rightarrow> string option" where
  "iso_date_key L ts_str =
     (case fromisoformat L (strip_Z ts_str) of
        None \<Rightarrow> None
      | Some dt_obj \<Rightarrow> Some (isoformat (date_of dt_obj)))"

subsection \<open>\<^verbatim>\<open>load_price_map_stats\<close>\<close>

text \<open>
  \<^verbatim>\<open>for ts_ms, price in data.get("stats", [])\<close> unpacks every item into exactly two
  values; nothing in the loop is inside a \<^verbatim>\<open>try\<close>.
\<close>

definition unpack2 :: "json \<Rightarrow> exn + json \<times> json" where
  "unpack2 item =
     (case py_iter item of
        Inl e \<Rightarrow> Inl e
      | Inr vs \<Rightarrow> (if length vs = 2 then Inr (vs ! 0, vs ! 1) else Inl ValueError))"

definition stats_body :: "json \<Rightarrow> price_map \<Rightarrow> exn + price_map" where
  "stats_body item price_map =
     (case unpack2 item of
        Inl e \<Rightarrow> Inl e
      | Inr tp \<Rightarrow>
     (case int_of_json (fst tp) of
        Inl e \<Rightarrow> Inl e
      | Inr n \<Rightarrow>
     (case float_of_int n of
        Inl e \<Rightarrow> Inl e
      | Inr x \<Rightarrow>
     (case float_truediv x (Fin 125 3) of
        Inl e \<Rightarrow> Inl e
      | Inr ts_sec \<Rightarrow>
     (case utcfromtimestamp ts_sec of
        Inl e \<Rightarrow> Inl e
      | Inr dt_obj \<Rightarrow>
     (case float_of_json (snd tp) of
        Inl e \<Rightarrow> Inl e
      | Inr p \<Rightarrow> Inr (price_map(isoformat (date_of dt_obj) \<mapsto> p))))))))"

definition load_price_map_stats :: "json \<Rightarrow> exn + price_map" where
  "load_price_map_stats data =
     (case dict_get_default data ''stats'' (JList []) of
        Inl e \<Rightarrow> Inl e
      | Inr stats \<Rightarrow>
          (case py_iter stats of
             Inl e \<Rightarrow> Inl e
           | Inr items \<Rightarrow> for_each stats_body items Map.empty))"

subsection \<open>\<^verbatim>\<open>load_price_map_xy\<close>\<close>

fun xy_entries :: "json \<Rightarrow> exn + json" where
  "xy_entries (JDict kvs) = dict_get_default (JDict kvs) ''data'' (JList [])"
| "xy_entries (JList es) = Inr (JList es)"
| "xy_entries _ = Inl Unexpected_JSON_structure"

text \<open>The \<^verbatim>\<open>try\<close> block of the loop; \<open>None\<close> is an exception caught.\<close>

definition xy_try :: "pylib \<Rightarrow> string \<Rightarrow> json \<Rightarrow> (string \<times> pyfloat) option" where
  "xy_try L ts_str price =
     (case iso_date_key L ts_str of
        None \<Rightarrow> None
      | Some d \<Rightarrow> (case float_of_json price of Inl e \<Rightarrow> None | Inr p \<Rightarrow> Some (d, p)))"

fun xy_body :: "pylib \<Rightarrow> json \<Rightarrow> price_map \<times> warning list \<Rightarrow> exn + price_map \<times> warning list" where
  "xy_body L entry (price_map, log) =
     (case dict_get entry ''x'' of
        Inl e \<Rightarrow> Inl e
      | Inr ts \<Rightarrow>
     (case dict_get entry ''y'' of
        Inl e \<Rightarrow> Inl e
      | Inr price \<Rightarrow>
          if ts = JNull \<or> price = JNull then Inr (price_map, log)
          else
            (case xy_try L (strip (str_of L ts)) price of
               None \<Rightarrow> Inr (price_map, log @ [XY_warning (strip (str_of L ts))])
             | Some kp \<Rightarrow> Inr (price_map(fst kp \<mapsto> snd kp), log))))"

definition load_price_map_xy :: "pylib \<Rightarrow> json \<Rightarrow> exn + price_map \<times> warning list" where
  "load_price_map_xy L data =
     (case xy_entries data of
        Inl e \<Rightarrow> Inl e
      | Inr entries \<Rightarrow>
          (case py_iter entries of
             Inl e \<Rightarrow> Inl e
           | Inr es \<Rightarrow> for_each (xy_body L) es (Map.empty, [])))"

subsection \<open>\<^verbatim>\<open>load_price_map_mag_xrp_usd\<close>\<close>

text \<open>
  The OHLC loop (the same loop is \<^verbatim>\<open>load_mag_xrp_daily_map\<close> of
  \<^verbatim>\<open>mag_custom_price.py\<close>): the day's price is \<^verbatim>\<open>(float(o) + float(c)) / 2.0\<close>
  (\<open>opn\<close> and \<open>cls\<close> below are the source's \<^verbatim>\<open>o\<close> and \<^verbatim>\<open>c\<close>).
\<close>

definition ohlc_try :: "pylib \<Rightarrow> json \<Rightarrow> json \<Rightarrow> json \<Rightarrow> (string \<times> pyfloat) option" where
  "ohlc_try L ts opn cls =
     (case iso_date_key L (strip (str_of L ts)) of
        None \<Rightarrow> None
      | Some d \<Rightarrow>
     (case float_of_json opn of
        Inl e \<Rightarrow> None
      | Inr fo \<Rightarrow>
     (case float_of_json cls of
        Inl e \<Rightarrow> None
      | Inr fc \<Rightarrow>
     (case float_truediv (float_add fo fc) (Fin 1 1) of
        Inl e \<Rightarrow> None
      | Inr avg_price \<Rightarrow> Some (d, avg_price)))))"

fun mag_body :: "pylib \<Rightarrow> json \<Rightarrow> price_map \<times> warning list \<Rightarrow> exn + price_map \<times> warning list" where
  "mag_body L entry (price_map, log) =
     (case dict_get entry ''timestamp'' of
        Inl e \<Rightarrow> Inl e
      | Inr ts \<Rightarrow>
     (case dict_get entry ''open'' of
        Inl e \<Rightarrow> Inl e
      | Inr opn \<Rightarrow>
     (case dict_get entry ''close'' of
        Inl e \<Rightarrow> Inl e
      | Inr cls \<Rightarrow>
          if ts = JNull \<or> opn = JNull \<or> cls = JNull then Inr (price_map, log)
          else
            (case ohlc_try L ts opn cls of
               None \<Rightarrow> Inr (price_map, log @ [MAG_warning entry])
             | Some kp \<Rightarrow> Inr (price_map(fst kp \<mapsto> snd kp), log)))))"

definition load_mag_xrp_daily_map :: "pylib \<Rightarrow> json \<Rightarrow> exn + price_map \<times> warning list" where
  "load_mag_xrp_daily_map L data =
     (case data of
        JList es \<Rightarrow> for_each (mag_body L) es (Map.empty, [])
      | _ \<Rightarrow> Inl Expected_list_of_OHLC)"

text \<open>The loop over the XRP/USD entries, keys \<^verbatim>\<open>XRP_X_KEY = "x"\<close> and \<^verbatim>\<open>XRP_Y_KEY = "y"\<close>.\<close>

fun xrp_body :: "pylib \<Rightarrow> json \<Rightarrow> price_map \<times> warning list \<Rightarrow> exn + price_map \<times> warning list" where
  "xrp_body L entry (price_map, log) =
     (case dict_get entry ''x'' of
        Inl e \<Rightarrow> Inl e
      | Inr ts \<Rightarrow>
     (case dict_get entry ''y'' of
        Inl e \<Rightarrow> Inl e
      | Inr y \<Rightarrow>
          if ts = JNull \<or> y = JNull then Inr (price_map, log)
          else
            (case xy_try L (strip (str_of L ts)) y of
               None \<Rightarrow> Inr (price_map, log @ [XRP_warning entry])
             | Some kp \<Rightarrow> Inr (price_map(fst kp \<mapsto> snd kp), log))))"

text \<open>
  The last block of \<^verbatim>\<open>load_price_map_mag_xrp_usd\<close>: for every date in both maps,
  \<^verbatim>\<open>combined[d] = mag_xrp_map[d] * xrp_usd_map[d]\<close>. (\<^verbatim>\<open>mag_custom_price.py\<close> forms the
  same products over the same dates and writes them to a file.)
\<close>

definition combined :: "price_map \<Rightarrow> price_map \<Rightarrow> price_map" where
  "combined mag_xrp_map xrp_usd_map =
     (\<lambda>d. case mag_xrp_map d of
             None \<Rightarrow> None
           | Some mag_xrp \<Rightarrow>
               (case xrp_usd_map d of
                  None \<Rightarrow> None
                | Some xrp_usd \<Rightarrow> Some (float_mul mag_xrp xrp_usd)))"

definition load_price_map_mag_xrp_usd ::
    "pylib \<Rightarrow> json \<Rightarrow> json \<Rightarrow> exn + price_map \<times> warning list" where
  "load_price_map_mag_xrp_usd L mag_data xrp_data =
     (case load_mag_xrp_daily_map L mag_data of
        Inl e \<Rightarrow> Inl e
      | Inr mag \<Rightarrow>
     (case xy_entries xrp_data of
        Inl e \<Rightarrow> Inl e
      | Inr xrp_entries \<Rightarrow>
     (case py_iter xrp_entries of
        Inl e \<Rightarrow> Inl e
      | Inr es \<Rightarrow>
     (case for_each (xrp_body L) es (Map.empty, snd mag) of
        Inl e \<Rightarrow> Inl e
      | Inr xrp \<Rightarrow> Inr (combined (fst mag) (fst xrp), snd xrp)))))"

section \<open>The row valuation engine\<close>

text \<open>
  The main loop of \<^verbatim>\<open>update_networth_multi.py\<close>. A row is what \<^verbatim>\<open>csv.DictReader\<close>
  yields for a line with as many fields as the header: a dict from column name to
  string. The dicts it yields for the other lines, and the run over a whole file,
  follow in the next section. The names below are the script's constants.
\<close>

definition DATE_COL :: string where
  "DATE_COL = ''Date (UTC)''"

definition TO_CCY_COL :: string where
  "TO_CCY_COL = ''To Currency''"

definition TO_AMT_COL :: string where
  "TO_AMT_COL = ''To Amount''"

definition FROM_CCY_COL :: string where
  "FROM_CCY_COL = ''From Currency''"

definition FROM_AMT_COL :: string where
  "FROM_AMT_COL = ''From Amount''"

definition NET_WORTH_AMT_COL :: string where
  "NET_WORTH_AMT_COL = ''Net Worth Amount''"

definition NET_WORTH_CCY_COL :: string where
  "NET_WORTH_CCY_COL = ''Net Worth Currency''"

definition NET_WORTH_CCY_VALUE :: string where
  "NET_WORTH_CCY_VALUE = ''USD;10''"

record token_entry =
  price_file :: string
  format :: string

definition TOKEN_CONFIG :: "(string \<times> token_entry) list" where
  "TOKEN_CONFIG = [(''STX;1770845'', \<lparr>price_file = ''stx_price.json'', format = ''xy''\<rparr>)]"

definition STABLE_TOKENS :: "string set" where
  "STABLE_TOKENS = {''USDC;7483231'', ''RLUSD;30660449'', ''USDC;5377860''}"

text \<open>
  The loop reads three globals: the token table, the set of stable tokens and the
  price maps built from the table at start-up. The model takes them as one
  argument, so that its theorems hold for every configuration and every price
  history; \<open>source_config\<close> is the configuration the script is shipped with.
\<close>

record config =
  token_config :: "(string \<times> token_entry) list"
  stable_tokens :: "string set"
  price_maps_by_token :: "string \<rightharpoonup> price_map"

definition source_config :: "(string \<rightharpoonup> price_map) \<Rightarrow> config" where
  "source_config maps =
     \<lparr>token_config = TOKEN_CONFIG, stable_tokens = STABLE_TOKENS, price_maps_by_token = maps\<rparr>"

type_synonym row = "string \<rightharpoonup> string"

text \<open>\<^verbatim>\<open>row.get(col, "")\<close>.\<close>

definition row_get :: "row \<Rightarrow> string \<Rightarrow> string" where
  "row_get row col = (case row col of None \<Rightarrow> [] | Some v \<Rightarrow> v)"

text \<open>\<^verbatim>\<open>code in TOKEN_CONFIG\<close>: the code is a key of the dict.\<close>

definition in_token_config :: "config \<Rightarrow> string \<Rightarrow> bool" where
  "in_token_config cfg code \<longleftrightarrow> map_of (token_config cfg) code \<noteq> None"

text \<open>
  \<^verbatim>\<open>safe_float(value, default)\<close>; the argument \<open>None\<close> is Python's \<^verbatim>\<open>None\<close>, which the
  function takes for the empty string.
\<close>

definition safe_float :: "string option \<Rightarrow> pyfloat \<Rightarrow> pyfloat" where
  "safe_float val dflt =
     (let v = (case val of None \<Rightarrow> [] | Some s \<Rightarrow> strip s)
      in if v = [] then dflt
         else (case float_of_str v of None \<Rightarrow> dflt | Some x \<Rightarrow> x))"

definition parse_datetime_utc :: "string \<Rightarrow> datetime option" where
  "parse_datetime_utc s = (if strip s = [] then None else strptime (strip s))"

datatype mode = Price_mode | Stable_mode

record candidate =
  token_code :: string
  amt_raw :: string
  mode :: mode

text \<open>The \<^verbatim>\<open>if\<close>/\<^verbatim>\<open>elif\<close> chain that sets \<^verbatim>\<open>token_code\<close>, \<^verbatim>\<open>amt_raw\<close> and \<^verbatim>\<open>mode\<close>.\<close>

definition select_candidate :: "config \<Rightarrow> row \<Rightarrow> candidate option" where
  "select_candidate cfg row =
     (let to_currency = row_get row TO_CCY_COL;
          from_currency = row_get row FROM_CCY_COL
      in if in_token_config cfg to_currency then
           Some \<lparr>token_code = to_currency, amt_raw = row_get row TO_AMT_COL, mode = Price_mode\<rparr>
         else if in_token_config cfg from_currency then
           Some \<lparr>token_code = from_currency, amt_raw = row_get row FROM_AMT_COL, mode = Price_mode\<rparr>
         else if to_currency \<in> stable_tokens cfg then
           Some \<lparr>token_code = to_currency, amt_raw = row_get row TO_AMT_COL, mode = Stable_mode\<rparr>
         else if from_currency \<in> stable_tokens cfg then
           Some \<lparr>token_code = from_currency, amt_raw = row_get row FROM_AMT_COL, mode = Stable_mode\<rparr>
         else None)"

text \<open>The state of the loop: the two counters and the rows written so far.\<close>

record state =
  updated_rows :: nat
  skipped_rows :: nat
  written :: "row list"

definition writerow :: "row \<Rightarrow> state \<Rightarrow> state" where
  "writerow row st = st\<lparr>written := written st @ [row]\<rparr>"

definition skip_row :: "row \<Rightarrow> state \<Rightarrow> state" where
  "skip_row row st = writerow row (st\<lparr>skipped_rows := skipped_rows st + 1\<rparr>)"

definition update_row :: "row \<Rightarrow> pyfloat \<Rightarrow> state \<Rightarrow> state" where
  "update_row row nv st =
     writerow (row(NET_WORTH_AMT_COL \<mapsto> format_8f nv, NET_WORTH_CCY_COL \<mapsto> NET_WORTH_CCY_VALUE))
       (st\<lparr>updated_rows := updated_rows st + 1\<rparr>)"

text \<open>\<^verbatim>\<open>price_maps_by_token.get(token_code, {}).get(date_key)\<close>.\<close>

definition lookup_price :: "config \<Rightarrow> string \<Rightarrow> string \<Rightarrow> pyfloat option" where
  "lookup_price cfg code date_key =
     (case price_maps_by_token cfg code of None \<Rightarrow> None | Some price_map \<Rightarrow> price_map date_key)"

text \<open>The body of \<^verbatim>\<open>for row in reader\<close>.\<close>

definition process_row :: "config \<Rightarrow> row \<Rightarrow> state \<Rightarrow> state" where
  "process_row cfg row st =
     (let net_raw = row_get row NET_WORTH_AMT_COL;
          date_raw = row_get row DATE_COL;
          current_net = safe_float (Some net_raw) (Fin 0 0)
      in if \<not> float_eq current_net (Fin 0 0) then writerow row st
         else
           (case select_candidate cfg row of
              None \<Rightarrow> writerow row st
            | Some cand \<Rightarrow>
                (let amt = safe_float (Some (amt_raw cand)) (Fin 0 0)
                 in if float_eq amt (Fin 0 0) then skip_row row st
                    else if mode cand = Stable_mode then update_row row amt st
                    else
                      (case parse_datetime_utc date_raw of
                         None \<Rightarrow> skip_row row st
                       | Some dt_obj \<Rightarrow>
                           (case lookup_price cfg (token_code cand) (isoformat (date_of dt_obj)) of
                              None \<Rightarrow> skip_row row st
                            | Some price \<Rightarrow> update_row row (float_mul amt price) st)))))"

text \<open>\<^verbatim>\<open>updated_rows = 0\<close>, \<^verbatim>\<open>skipped_rows = 0\<close> and an output file with the header only.\<close>

definition start :: state where
  "start = \<lparr>updated_rows = 0, skipped_rows = 0, written = []\<rparr>"

definition run :: "config \<Rightarrow> row list \<Rightarrow> state" where
  "run cfg rows = foldl (\<lambda>st row. process_row cfg row st) start rows"

section \<open>The run over a file\<close>

text \<open>
  The \<^verbatim>\<open>with\<close> block as a whole. The input is the list of lines that \<^verbatim>\<open>csv.reader\<close>
  yields, each a list of fields, the first of them the header; how the reader
  splits the text of the file into fields is not modelled. \<^verbatim>\<open>csv.DictReader\<close>
  turns a line into a dict, and that dict need not be a row of strings: a line
  shorter than the header has \<^verbatim>\<open>None\<close> in the columns it lacks, and a longer one
  keeps its surplus fields as a list under the key \<^verbatim>\<open>None\<close>. So a cell is a
  \<open>string option\<close>, with \<open>None\<close> for \<^verbatim>\<open>None\<close>, and the list under the key \<^verbatim>\<open>None\<close> is a
  field of its own.
\<close>

record csv_dict =
  cells :: "string \<rightharpoonup> string option"
  surplus :: "string list option"

text \<open>
  \<^verbatim>\<open>DictReader.__next__\<close> for one line that is not blank: \<^verbatim>\<open>dict(zip(fieldnames, row))\<close>,
  in which the last of two columns of one name wins, then the surplus of a long
  line or the \<^verbatim>\<open>None\<close>s of a short one.
\<close>

definition DictReader_next :: "string list \<Rightarrow> string list \<Rightarrow> csv_dict" where
  "DictReader_next fieldnames line =
     \<lparr>cells = (\<lambda>key. if key \<in> set (drop (length line) fieldnames) then Some None
                     else map_option Some (map_of (rev (zip fieldnames line)) key)),
      surplus = (if length fieldnames < length line
                 then Some (drop (length fieldnames) line) else None)\<rparr>"

text \<open>
  The check of the header: a column of \<^verbatim>\<open>required_cols\<close> that is missing raises, but
  for \<^verbatim>\<open>Net Worth Currency\<close>, which is appended. The list appended to is the reader's
  own, so the rows read afterwards have the new column.
\<close>

definition required_cols :: "string list" where
  "required_cols = [DATE_COL, TO_CCY_COL, TO_AMT_COL, FROM_CCY_COL, FROM_AMT_COL,
                    NET_WORTH_AMT_COL, NET_WORTH_CCY_COL]"

fun ensure_columns :: "string list \<Rightarrow> string list \<Rightarrow> exn + string list" where
  "ensure_columns [] fieldnames = Inr fieldnames"
| "ensure_columns (col # cols) fieldnames =
     (if col \<in> set fieldnames then ensure_columns cols fieldnames
      else if col = NET_WORTH_CCY_COL then ensure_columns cols (fieldnames @ [NET_WORTH_CCY_COL])
      else Inl RuntimeError)"

text \<open>\<^verbatim>\<open>row.get(col, "")\<close> on such a dict: the cell may be \<^verbatim>\<open>None\<close>.\<close>

definition get_cell :: "csv_dict \<Rightarrow> string \<Rightarrow> string option" where
  "get_cell d col = (case cells d col of None \<Rightarrow> Some [] | Some v \<Rightarrow> v)"

text \<open>
  \<^verbatim>\<open>writer.writerow(row)\<close>. \<^verbatim>\<open>DictWriter\<close> is built with the default
  \<^verbatim>\<open>extrasaction="raise"\<close>: a dict with a key that is no column raises \<^verbatim>\<open>ValueError\<close>.
  The keys of the cells are columns (they come from the header, and the two net
  worth columns are in it after the check), so the key that can be wrong is
  \<^verbatim>\<open>None\<close>, the surplus of a long line. Otherwise the cells are written in the
  order of the header, a cell \<^verbatim>\<open>None\<close> as the empty field like a missing one: the row
  written is the row of the cells that hold a string.
\<close>

definition texts :: "csv_dict \<Rightarrow> row" where
  "texts d = (\<lambda>col. case cells d col of None \<Rightarrow> None | Some v \<Rightarrow> v)"

definition DictWriter_writerow :: "csv_dict \<Rightarrow> state \<Rightarrow> exn + state" where
  "DictWriter_writerow d st =
     (case surplus d of Some extra \<Rightarrow> Inl ValueError | None \<Rightarrow> Inr (writerow (texts d) st))"

text \<open>
  \<^verbatim>\<open>currency in TOKEN_CONFIG\<close> and \<^verbatim>\<open>currency in STABLE_TOKENS\<close>, which are false of
  \<^verbatim>\<open>None\<close>; the result is the code found.
\<close>

definition priced_code :: "config \<Rightarrow> string option \<Rightarrow> string option" where
  "priced_code cfg currency =
     (case currency of
        None \<Rightarrow> None
      | Some code \<Rightarrow> if in_token_config cfg code then Some code else None)"

definition stable_code :: "config \<Rightarrow> string option \<Rightarrow> string option" where
  "stable_code cfg currency =
     (case currency of
        None \<Rightarrow> None
      | Some code \<Rightarrow> if code \<in> stable_tokens cfg then Some code else None)"

record choice =
  chosen_token :: string
  chosen_amt :: "string option"
  chosen_mode :: mode

text \<open>The \<^verbatim>\<open>if\<close>/\<^verbatim>\<open>elif\<close> chain again, on the cells of the dict.\<close>

definition choose_token :: "config \<Rightarrow> csv_dict \<Rightarrow> choice option" where
  "choose_token cfg d =
     (let to_currency = get_cell d TO_CCY_COL;
          from_currency = get_cell d FROM_CCY_COL
      in case priced_code cfg to_currency of
           Some code \<Rightarrow>
             Some \<lparr>chosen_token = code, chosen_amt = get_cell d TO_AMT_COL, chosen_mode = Price_mode\<rparr>
         | None \<Rightarrow>
        (case priced_code cfg from_currency of
           Some code \<Rightarrow>
             Some \<lparr>chosen_token = code, chosen_amt = get_cell d FROM_AMT_COL, chosen_mode = Price_mode\<rparr>
         | None \<Rightarrow>
        (case stable_code cfg to_currency of
           Some code \<Rightarrow>
             Some \<lparr>chosen_token = code, chosen_amt = get_cell d TO_AMT_COL, chosen_mode = Stable_mode\<rparr>
         | None \<Rightarrow>
        (case stable_code cfg from_currency of
           Some code \<Rightarrow>
             Some \<lparr>chosen_token = code, chosen_amt = get_cell d FROM_AMT_COL, chosen_mode = Stable_mode\<rparr>
         | None \<Rightarrow> None))))"

definition skip_dict :: "csv_dict \<Rightarrow> state \<Rightarrow> exn + state" where
  "skip_dict d st = DictWriter_writerow d (st\<lparr>skipped_rows := skipped_rows st + 1\<rparr>)"

definition update_dict :: "csv_dict \<Rightarrow> pyfloat \<Rightarrow> state \<Rightarrow> exn + state" where
  "update_dict d nv st =
     DictWriter_writerow
       (d\<lparr>cells := (cells d)(NET_WORTH_AMT_COL \<mapsto> Some (format_8f nv),
                              NET_WORTH_CCY_COL \<mapsto> Some NET_WORTH_CCY_VALUE)\<rparr>)
       (st\<lparr>updated_rows := updated_rows st + 1\<rparr>)"

text \<open>
  The body of \<^verbatim>\<open>for row in reader\<close> on the dict of any line. It is \<open>process_row\<close> but
  for two exceptions: \<^verbatim>\<open>writerow\<close> raises for a long line, and
  \<^verbatim>\<open>parse_datetime_utc(None)\<close> raises \<^verbatim>\<open>AttributeError\<close> at \<^verbatim>\<open>s.strip()\<close>, where
  \<open>safe_float\<close> reads \<^verbatim>\<open>None\<close> as blank.
\<close>

definition process_dict :: "config \<Rightarrow> csv_dict \<Rightarrow> state \<Rightarrow> exn + state" where
  "process_dict cfg d st =
     (let net_raw = get_cell d NET_WORTH_AMT_COL;
          date_raw = get_cell d DATE_COL;
          current_net = safe_float net_raw (Fin 0 0)
      in if \<not> float_eq current_net (Fin 0 0) then DictWriter_writerow d st
         else
           (case choose_token cfg d of
              None \<Rightarrow> DictWriter_writerow d st
            | Some c \<Rightarrow>
                (let amt = safe_float (chosen_amt c) (Fin 0 0)
                 in if float_eq amt (Fin 0 0) then skip_dict d st
                    else if chosen_mode c = Stable_mode then update_dict d amt st
                    else
                      (case date_raw of
                         None \<Rightarrow> Inl AttributeError
                       | Some s \<Rightarrow>
                      (case parse_datetime_utc s of
                         None \<Rightarrow> skip_dict d st
                       | Some dt_obj \<Rightarrow>
                           (case lookup_price cfg (chosen_token c) (isoformat (date_of dt_obj)) of
                              None \<Rightarrow> skip_dict d st
                            | Some price \<Rightarrow> update_dict d (float_mul amt price) st))))))"

text \<open>
  A run either reaches the end of the input, with its counters and the rows
  written, or is ended by an exception, with the rows written before it.
\<close>

datatype outcome = Finished state | Aborted exn "row list"

fun output_rows :: "outcome \<Rightarrow> row list" where
  "output_rows (Finished st) = written st"
| "output_rows (Aborted e rows) = rows"

text \<open>The loop \<^verbatim>\<open>for row in reader\<close>; \<^verbatim>\<open>DictReader\<close> passes over the blank lines.\<close>

fun read_rows :: "config \<Rightarrow> string list \<Rightarrow> string list list \<Rightarrow> state \<Rightarrow> outcome" where
  "read_rows cfg fieldnames [] st = Finished st"
| "read_rows cfg fieldnames (line # lines) st =
     (if line = [] then read_rows cfg fieldnames lines st
      else
        (case process_dict cfg (DictReader_next fieldnames line) st of
           Inl e \<Rightarrow> Aborted e (written st)
         | Inr st' \<Rightarrow> read_rows cfg fieldnames lines st'))"

text \<open>
  The whole block: a file with no line at all has no header
  (\<^verbatim>\<open>fieldnames is None\<close>), which raises like a header without a required column.
\<close>

definition run_file :: "config \<Rightarrow> string list list \<Rightarrow> outcome" where
  "run_file cfg lines =
     (case lines of
        [] \<Rightarrow> Aborted RuntimeError []
      | header # data \<Rightarrow>
          (case ensure_columns required_cols header of
             Inl e \<Rightarrow> Aborted e []
           | Inr fieldnames \<Rightarrow> read_rows cfg fieldnames data start))"

section \<open>Notions used to state the properties\<close>

text \<open>
  An instance of the two interpreter functions for the examples: the timestamps
  \<^verbatim>\<open>YYYY-MM-DD\<close> and \<^verbatim>\<open>YYYY-MM-DDTHH:MM:SS\<close>, which every version of
  \<^verbatim>\<open>datetime.fromisoformat\<close> accepts. The examples use string timestamps only, so
  \<open>repr_of\<close> is never consulted in them.
\<close>

definition two_digits :: "string \<Rightarrow> nat option" where
  "two_digits s = (if length s = 2 \<and> list_all is_digit s then Some (nat_of_digits s) else None)"

definition iso_date :: "string \<Rightarrow> date option" where
  "iso_date s =
     (if length s = 10 \<and> list_all is_digit (take 4 s) \<and> s ! 4 = CHR ''-''
         \<and> list_all is_digit (take 2 (drop 5 s)) \<and> s ! 7 = CHR ''-''
         \<and> list_all is_digit (drop 8 s)
         \<and> valid_date (nat_of_digits (take 4 s)) (nat_of_digits (take 2 (drop 5 s)))
              (nat_of_digits (drop 8 s))
      then Some (Date (nat_of_digits (take 4 s)) (nat_of_digits (take 2 (drop 5 s)))
                   (nat_of_digits (drop 8 s)))
      else None)"

definition iso_time :: "string \<Rightarrow> (nat \<times> nat \<times> nat) option" where
  "iso_time s =
     (if length s = 8 \<and> s ! 2 = CHR '':'' \<and> s ! 5 = CHR '':'' then
        (case two_digits (take 2 s) of
           None \<Rightarrow> None
         | Some h \<Rightarrow>
        (case two_digits (take 2 (drop 3 s)) of
           None \<Rightarrow> None
         | Some mi \<Rightarrow>
        (case two_digits (drop 6 s) of
           None \<Rightarrow> None
         | Some sec \<Rightarrow> if h < 24 \<and> mi < 60 \<and> sec < 60 then Some (h, mi, sec) else None)))
      else None)"

definition example_fromisoformat :: "string \<Rightarrow> datetime option" where
  "example_fromisoformat s =
     (case iso_date (take 10 s) of
        None \<Rightarrow> None
      | Some d \<Rightarrow>
          if length s = 10 then Some (DateTime d 0 0 0)
          else
            (case iso_time (drop 11 s) of
               None \<Rightarrow> None
             | Some t \<Rightarrow> Some (DateTime d (fst t) (fst (snd t)) (snd (snd t)))))"

definition example_lib :: pylib where
  "example_lib = \<lparr>repr_of = (\<lambda>v. []), fromisoformat = example_fromisoformat\<rparr>"

text \<open>
  How the loops treat one entry of an xy series and of an OHLC series: it is not a
  dict (the \<^verbatim>\<open>.get\<close> raises), a field is missing or \<^verbatim>\<open>null\<close> (\<^verbatim>\<open>continue\<close>, nothing
  printed), the \<^verbatim>\<open>try\<close> block fails (a warning is printed), or its price is stored.
\<close>

datatype entry_kind = Not_a_dict | Field_missing | Unparsable | Loads

fun is_dict :: "json \<Rightarrow> bool" where
  "is_dict (JDict kvs) = True"
| "is_dict _ = False"

fun is_list :: "json \<Rightarrow> bool" where
  "is_list (JList es) = True"
| "is_list _ = False"

fun field_of :: "json \<Rightarrow> string \<Rightarrow> json" where
  "field_of (JDict kvs) k = (case map_of kvs k of None \<Rightarrow> JNull | Some v \<Rightarrow> v)"
| "field_of _ k = JNull"

definition xy_kind :: "pylib \<Rightarrow> json \<Rightarrow> entry_kind" where
  "xy_kind L entry =
     (if \<not> is_dict entry then Not_a_dict
      else if field_of entry ''x'' = JNull \<or> field_of entry ''y'' = JNull then Field_missing
      else if iso_date_key L (strip (str_of L (field_of entry ''x''))) = None
              \<or> isl (float_of_json (field_of entry ''y'')) then Unparsable
      else Loads)"

definition ohlc_kind :: "pylib \<Rightarrow> json \<Rightarrow> entry_kind" where
  "ohlc_kind L entry =
     (if \<not> is_dict entry then Not_a_dict
      else if field_of entry ''timestamp'' = JNull \<or> field_of entry ''open'' = JNull
              \<or> field_of entry ''close'' = JNull then Field_missing
      else if iso_date_key L (strip (str_of L (field_of entry ''timestamp''))) = None
              \<or> isl (float_of_json (field_of entry ''open''))
              \<or> isl (float_of_json (field_of entry ''close'')) then Unparsable
      else Loads)"

text \<open>
  What a stored entry adds to the map, and the warning printed for an entry given
  up on, for the xy loop and for the OHLC loop.
\<close>

definition xy_store :: "pylib \<Rightarrow> price_map \<Rightarrow> json \<Rightarrow> price_map" where
  "xy_store L price_map entry =
     (case xy_try L (strip (str_of L (field_of entry ''x''))) (field_of entry ''y'') of
        None \<Rightarrow> price_map
      | Some kp \<Rightarrow> price_map(fst kp \<mapsto> snd kp))"

definition xy_warning :: "pylib \<Rightarrow> json \<Rightarrow> warning" where
  "xy_warning L entry = XY_warning (strip (str_of L (field_of entry ''x'')))"

definition ohlc_store :: "pylib \<Rightarrow> price_map \<Rightarrow> json \<Rightarrow> price_map" where
  "ohlc_store L price_map entry =
     (case ohlc_try L (field_of entry ''timestamp'') (field_of entry ''open'')
             (field_of entry ''close'') of
        None \<Rightarrow> price_map
      | Some kp \<Rightarrow> price_map(fst kp \<mapsto> snd kp))"

text \<open>The first run of the engine on one row: the row it writes and whether it counts it updated.\<close>

definition row_written :: "config \<Rightarrow> row \<Rightarrow> row" where
  "row_written cfg row = last (written (run cfg [row]))"

definition row_updated :: "config \<Rightarrow> row \<Rightarrow> bool" where
  "row_updated cfg row \<longleftrightarrow> updated_rows (run cfg [row]) = 1"

definition net_worth_nonzero :: "row \<Rightarrow> bool" where
  "net_worth_nonzero row \<longleftrightarrow>
     \<not> float_eq (safe_float (Some (row_get row NET_WORTH_AMT_COL)) (Fin 0 0)) (Fin 0 0)"

text \<open>A text ends in a point and exactly eight digits.\<close>

definition eight_decimals :: "string \<Rightarrow> bool" where
  "eight_decimals s \<longleftrightarrow>
     9 \<le> length s \<and> s ! (length s - 9) = CHR ''.'' \<and> list_all is_digit (drop (length s - 8) s)"

fun is_finite :: "pyfloat \<Rightarrow> bool" where
  "is_finite (Fin m e) = True"
| "is_finite NegZero = True"
| "is_finite _ = False"

text \<open>Rows and a configuration for the examples: the shipped tables and one STX price, 1.5 on 2024-03-05.\<close>

definition example_row :: "string \<Rightarrow> string \<Rightarrow> string \<Rightarrow> string \<Rightarrow> string \<Rightarrow> string \<Rightarrow> row" where
  "example_row date to_ccy to_amt from_ccy from_amt net =
     [DATE_COL \<mapsto> date, TO_CCY_COL \<mapsto> to_ccy, TO_AMT_COL \<mapsto> to_amt,
      FROM_CCY_COL \<mapsto> from_ccy, FROM_AMT_COL \<mapsto> from_amt, NET_WORTH_AMT_COL \<mapsto> net]"

definition example_config :: config where
  "example_config = source_config [''STX;1770845'' \<mapsto> [''2024-03-05'' \<mapsto> Fin 3 (- 1)]]"

text \<open>
  The rows of a file are the lines after the header that are not blank; a line with
  as many fields as the header is the row \<^verbatim>\<open>dict(zip(header, line))\<close>.
\<close>

definition input_rows :: "string list list \<Rightarrow> string list list" where
  "input_rows lines = filter (\<lambda>line. line \<noteq> []) (tl lines)"

definition line_row :: "string list \<Rightarrow> string list \<Rightarrow> row" where
  "line_row header line = map_of (rev (zip header line))"

text \<open>A header and lines for the examples; the last field of a line is its blank net worth currency.\<close>

definition example_header :: "string list" where
  "example_header = [DATE_COL, TO_CCY_COL, TO_AMT_COL, FROM_CCY_COL, FROM_AMT_COL,
                     NET_WORTH_AMT_COL, NET_WORTH_CCY_COL]"

definition example_line :: "string \<Rightarrow> string \<Rightarrow> string \<Rightarrow> string \<Rightarrow> string \<Rightarrow> string \<Rightarrow> string list" where
  "example_line date to_ccy to_amt from_ccy from_amt net =
     [date, to_ccy, to_amt, from_ccy, from_amt, net, []]"

text \<open>An xy entry \<^verbatim>\<open>{"x": ts, "y": price}\<close> with a string timestamp, for the examples.\<close>

definition example_entry :: "string \<Rightarrow> json \<Rightarrow> json" where
  "example_entry ts price = JDict [(''x'', JStr ts), (''y'', price)]"

section \<open>Rules for evaluating the model on concrete inputs\<close>

text \<open>
  The recursive functions on numbers are unfolded along the binary digits of a
  numeral, never on a variable.
\<close>

lemma bitlen_0: "bitlen 0 = 0"
  by (simp add: bitlen.simps)

lemma bitlen_1: "bitlen 1 = 1"
  by (simp add: bitlen.simps)

lemma bitlen_Suc_0: "bitlen (Suc 0) = 1"
  by (simp add: bitlen.simps)

lemma bitlen_Bit0: "bitlen (numeral (Num.Bit0 k)) = bitlen (numeral k) + 1"
  by (subst bitlen.simps) simp

lemma bitlen_Bit1: "bitlen (numeral (Num.Bit1 k)) = bitlen (numeral k) + 1"
  by (subst bitlen.simps) simp

lemma norm_odd_0: "norm_odd 0 e = (0, 0)"
  by (simp add: norm_odd.simps)

lemma norm_odd_1: "norm_odd 1 e = (1, e)"
  by (simp add: norm_odd.simps)

lemma norm_odd_Suc_0: "norm_odd (Suc 0) e = (Suc 0, e)"
  by (simp add: norm_odd.simps)

lemma norm_odd_Bit0: "norm_odd (numeral (Num.Bit0 k)) e = norm_odd (numeral k) (e + 1)"
  by (subst norm_odd.simps) simp

lemma norm_odd_Bit1: "norm_odd (numeral (Num.Bit1 k)) e = (numeral (Num.Bit1 k), e)"
  by (subst norm_odd.simps) simp

lemma show_nat_small: "n < 10 \<Longrightarrow> show_nat n = [digit_char n]"
  by (simp add: show_nat.simps)

lemma show_nat_large: "10 \<le> n \<Longrightarrow> show_nat n = show_nat (n div 10) @ [digit_char (n mod 10)]"
  by (subst show_nat.simps) simp

lemma replicate_numeral_eval: "replicate (numeral k) x = x # replicate (pred_numeral k) x"
  by (simp add: numeral_eq_Suc)

lemmas float_eval =
  bitlen_0 bitlen_1 bitlen_Suc_0 bitlen_Bit0 bitlen_Bit1
  norm_odd_0 norm_odd_1 norm_odd_Suc_0 norm_odd_Bit0 norm_odd_Bit1
  round_ratio_def round_scaled_def Let_def rhe_div_def mk_fin_def
  signed_zero_def signed_inf_def float_mul_def float_add_def float_truediv_def
  float_of_int_def float_eq_def

lemmas str_eval =
  is_digit_def digit_val_def digit_char_def nat_of_digits_def is_space_def strip_def
  strip_by_def is_number_space_def to_lower_def show_nat_small show_nat_large zfill_def replicate_numeral_eval
  parse_decimal_def float_of_str_def format_8f_def

lemmas date_eval =
  is_leap_def days_in_month_def valid_date_def field_def year_field_def month_field_def
  day_field_def hour_field_def minute_field_def second_field_def strptime_def
  civil_from_days_def frac_part_def round_to_int_def timestamp_seconds_def
  utcfromtimestamp_def isoformat.simps

section \<open>Chained prices\<close>

lemma combined_dom: "dom (combined b q) = dom b \<inter> dom q"
  by (auto simp: combined_def dom_def split: option.splits)

lemma combined_value:
  "b d = Some x \<Longrightarrow> q d = Some y \<Longrightarrow> combined b q d = Some (float_mul x y)"
  by (simp add: combined_def)

lemma float_mul_2_3: "float_mul (Fin 1 1) (Fin 3 0) = Fin 3 1"
  by (simp add: float_eval)

lemma float_of_str_2: "float_of_str ''2.0'' = Some (Fin 1 1)"
  by (simp add: float_eval str_eval)

lemma float_of_str_3: "float_of_str ''3.0'' = Some (Fin 3 0)"
  by (simp add: float_eval str_eval)

lemma float_of_str_5: "float_of_str ''5.0'' = Some (Fin 5 0)"
  by (simp add: float_eval str_eval)

lemma float_of_str_6: "float_of_str ''6.0'' = Some (Fin 3 1)"
  by (simp add: float_eval str_eval)

lemma combined_example:
  "combined [''2024-01-01'' \<mapsto> Fin 1 1] [''2024-01-01'' \<mapsto> Fin 3 0, ''2024-01-02'' \<mapsto> Fin 5 0]
     = [''2024-01-01'' \<mapsto> Fin 3 1]"
  by (rule ext) (simp add: combined_def float_mul_2_3)

text \<open>
  Claim C2. The map derived from a base map and a quote map has as keys exactly
  the dates that are keys of both, and at each of them the product of the two
  prices; a date of one map only is not a key. In particular the base map
  \<^verbatim>\<open>{"2024-01-01": 2.0}\<close> and the quote map \<^verbatim>\<open>{"2024-01-01": 3.0, "2024-01-02": 5.0}\<close>
  give \<^verbatim>\<open>{"2024-01-01": 6.0}\<close> (the floats 2.0, 3.0, 5.0 and 6.0 are \<open>Fin 1 1\<close>,
  \<open>Fin 3 0\<close>, \<open>Fin 5 0\<close> and \<open>Fin 3 1\<close>).
\<close>

theorem chained_derivation:
  "dom (combined base_map quote_map) = dom base_map \<inter> dom quote_map
   \<and> (\<forall>d x y. base_map d = Some x \<and> quote_map d = Some y
          \<longrightarrow> combined base_map quote_map d = Some (float_mul x y))
   \<and> (\<forall>d. base_map d = None \<or> quote_map d = None \<longrightarrow> combined base_map quote_map d = None)
   \<and> float_of_str ''2.0'' = Some (Fin 1 1) \<and> float_of_str ''3.0'' = Some (Fin 3 0)
   \<and> float_of_str ''5.0'' = Some (Fin 5 0) \<and> float_of_str ''6.0'' = Some (Fin 3 1)
   \<and> combined [''2024-01-01'' \<mapsto> Fin 1 1]
               [''2024-01-01'' \<mapsto> Fin 3 0, ''2024-01-02'' \<mapsto> Fin 5 0]
        = [''2024-01-01'' \<mapsto> Fin 3 1]"
proof -
  have "\<forall>d x y. base_map d = Some x \<and> quote_map d = Some y
          \<longrightarrow> combined base_map quote_map d = Some (float_mul x y)"
    by (simp add: combined_value)
  moreover have "\<forall>d. base_map d = None \<or> quote_map d = None \<longrightarrow> combined base_map quote_map d = None"
    by (auto simp: combined_def split: option.splits)
  ultimately show ?thesis
    using combined_dom [of base_map quote_map] combined_example
    by (simp only: float_of_str_2 float_of_str_3 float_of_str_5 float_of_str_6 simp_thms)
qed

theorem chained_derivation_witness:
  "dom (combined [''2024-01-01'' \<mapsto> Fin 1 1]
                 [''2024-01-01'' \<mapsto> Fin 3 0, ''2024-01-02'' \<mapsto> Fin 5 0]) = {''2024-01-01''}
   \<and> combined [''2024-01-01'' \<mapsto> Fin 1 1]
               [''2024-01-01'' \<mapsto> Fin 3 0, ''2024-01-02'' \<mapsto> Fin 5 0] ''2024-01-01''
        = Some (float_mul (Fin 1 1) (Fin 3 0))
   \<and> combined [''2024-01-01'' \<mapsto> Fin 1 1]
               [''2024-01-01'' \<mapsto> Fin 3 0, ''2024-01-02'' \<mapsto> Fin 5 0] ''2024-01-02'' = None"
proof -
  let ?b = "[''2024-01-01'' \<mapsto> Fin 1 1] :: price_map"
  let ?q = "[''2024-01-01'' \<mapsto> Fin 3 0, ''2024-01-02'' \<mapsto> Fin 5 0] :: price_map"
  note t = chained_derivation [of ?b ?q]
  have d: "dom (combined ?b ?q) = dom ?b \<inter> dom ?q"
    using t by blast
  have v: "?b ''2024-01-01'' = Some (Fin 1 1) \<and> ?q ''2024-01-01'' = Some (Fin 3 0)
           \<longrightarrow> combined ?b ?q ''2024-01-01'' = Some (float_mul (Fin 1 1) (Fin 3 0))"
    using t by blast
  have n: "?b ''2024-01-02'' = None \<or> ?q ''2024-01-02'' = None \<longrightarrow> combined ?b ?q ''2024-01-02'' = None"
    using t by blast
  have "dom (combined ?b ?q) = {''2024-01-01''}"
    using d by simp
  moreover have "combined ?b ?q ''2024-01-01'' = Some (float_mul (Fin 1 1) (Fin 3 0))"
    using v by simp
  moreover have "combined ?b ?q ''2024-01-02'' = None"
    using n by simp
  ultimately show ?thesis
    by blast
qed

section \<open>The loop body, case by case\<close>

lemma writerow_fields:
  "written (writerow r st) = written st @ [r]"
  "updated_rows (writerow r st) = updated_rows st"
  "skipped_rows (writerow r st) = skipped_rows st"
  by (simp_all add: writerow_def)

lemma skip_row_fields:
  "written (skip_row r st) = written st @ [r]"
  "updated_rows (skip_row r st) = updated_rows st"
  "skipped_rows (skip_row r st) = skipped_rows st + 1"
  by (simp_all add: skip_row_def writerow_def)

lemma update_row_fields:
  "written (update_row r nv st) =
     written st @ [r(NET_WORTH_AMT_COL \<mapsto> format_8f nv, NET_WORTH_CCY_COL \<mapsto> NET_WORTH_CCY_VALUE)]"
  "updated_rows (update_row r nv st) = updated_rows st + 1"
  "skipped_rows (update_row r nv st) = skipped_rows st"
  by (simp_all add: update_row_def writerow_def)

lemma net_worth_cols_distinct: "NET_WORTH_AMT_COL \<noteq> NET_WORTH_CCY_COL"
  by (simp add: NET_WORTH_AMT_COL_def NET_WORTH_CCY_COL_def)

lemma run_single: "run cfg [row] = process_row cfg row start"
  by (simp add: run_def)

lemma process_row_already_priced:
  "net_worth_nonzero row \<Longrightarrow> process_row cfg row st = writerow row st"
  by (simp add: process_row_def net_worth_nonzero_def Let_def)

lemma process_row_no_candidate:
  "\<not> net_worth_nonzero row \<Longrightarrow> select_candidate cfg row = None
   \<Longrightarrow> process_row cfg row st = writerow row st"
  by (simp add: process_row_def net_worth_nonzero_def Let_def)

lemma process_row_zero_amount:
  "\<not> net_worth_nonzero row \<Longrightarrow> select_candidate cfg row = Some cand
   \<Longrightarrow> float_eq (safe_float (Some (amt_raw cand)) (Fin 0 0)) (Fin 0 0)
   \<Longrightarrow> process_row cfg row st = skip_row row st"
  by (simp add: process_row_def net_worth_nonzero_def Let_def)

lemma process_row_stable:
  "\<not> net_worth_nonzero row \<Longrightarrow> select_candidate cfg row = Some cand
   \<Longrightarrow> \<not> float_eq (safe_float (Some (amt_raw cand)) (Fin 0 0)) (Fin 0 0)
   \<Longrightarrow> mode cand = Stable_mode
   \<Longrightarrow> process_row cfg row st = update_row row (safe_float (Some (amt_raw cand)) (Fin 0 0)) st"
  by (simp add: process_row_def net_worth_nonzero_def Let_def)

lemma process_row_priced:
  "\<not> net_worth_nonzero row \<Longrightarrow> select_candidate cfg row = Some cand
   \<Longrightarrow> \<not> float_eq (safe_float (Some (amt_raw cand)) (Fin 0 0)) (Fin 0 0)
   \<Longrightarrow> mode cand = Price_mode
   \<Longrightarrow> process_row cfg row st =
       (case parse_datetime_utc (row_get row DATE_COL) of
          None \<Rightarrow> skip_row row st
        | Some dt_obj \<Rightarrow>
            (case lookup_price cfg (token_code cand) (isoformat (date_of dt_obj)) of
               None \<Rightarrow> skip_row row st
             | Some price \<Rightarrow>
                 update_row row (float_mul (safe_float (Some (amt_raw cand)) (Fin 0 0)) price) st))"
  by (simp add: process_row_def net_worth_nonzero_def Let_def)

text \<open>Every pass through the loop body ends in one of three ways.\<close>

lemma process_row_outcome:
  "process_row cfg row st = writerow row st
   \<or> process_row cfg row st = skip_row row st
   \<or> (\<exists>nv. process_row cfg row st = update_row row nv st)"
  by (auto simp: process_row_def Let_def split: option.splits)

lemma digit_char_is_digit: "n < 10 \<Longrightarrow> is_digit (digit_char n)"
proof -
  assume "n < 10"
  then have "n < length ''0123456789''" by simp
  then have "''0123456789'' ! n \<in> set ''0123456789''" by (rule nth_mem)
  then show ?thesis by (simp only: is_digit_def digit_char_def)
qed

lemma show_nat_digits: "list_all is_digit (show_nat n)"
proof (induction n rule: show_nat.induct)
  case (1 n)
  show ?case
  proof (cases "n < 10")
    case True
    then show ?thesis by (simp add: show_nat_small digit_char_is_digit)
  next
    case False
    then have "list_all is_digit (show_nat (n div 10))" using 1 by simp
    moreover have "is_digit (digit_char (n mod 10))" by (simp add: digit_char_is_digit)
    ultimately show ?thesis using False by (simp add: show_nat_large)
  qed
qed

lemma length_show_nat: "n < 10 ^ k \<Longrightarrow> 0 < k \<Longrightarrow> length (show_nat n) \<le> k"
proof (induction n arbitrary: k rule: show_nat.induct)
  case (1 n)
  show ?case
  proof (cases "n < 10")
    case True
    then show ?thesis using "1.prems" by (simp add: show_nat_small)
  next
    case False
    then have k2: "2 \<le> k"
      using "1.prems" by (cases k; cases "k - 1") auto
    then obtain j where j: "k = Suc j" "0 < j" by (cases k) auto
    have "n div 10 < 10 ^ j"
      using "1.prems"(1) j by (simp add: less_mult_imp_div_less mult.commute)
    then have "length (show_nat (n div 10)) \<le> j"
      using 1 False j by simp
    then show ?thesis using False j by (simp add: show_nat_large)
  qed
qed

lemma zfill_8_shape:
  "n < 10 ^ 8 \<Longrightarrow> length (zfill 8 (show_nat n)) = 8 \<and> list_all is_digit (zfill 8 (show_nat n))"
proof -
  assume "n < 10 ^ 8"
  then have "length (show_nat n) \<le> 8" by (rule length_show_nat) simp
  moreover have "is_digit CHR ''0''" by (simp add: is_digit_def)
  moreover have "list_all is_digit (show_nat n)" by (rule show_nat_digits)
  ultimately show ?thesis
    by (auto simp: zfill_def list_all_iff)
qed

lemma eight_decimals_append:
  "length ds = 8 \<Longrightarrow> list_all is_digit ds \<Longrightarrow> eight_decimals (pre @ ''.'' @ ds)"
  by (simp add: eight_decimals_def nth_append)

lemma format_8f_eight_decimals: "is_finite x \<Longrightarrow> eight_decimals (format_8f x)"
proof -
  assume fin: "is_finite x"
  define N where "N = (if 0 \<le> expo x then nat \<bar>mant x\<bar> * 2 ^ nat (expo x) * 10 ^ 8
                 else rhe_div (nat \<bar>mant x\<bar> * 10 ^ 8) (2 ^ nat (- expo x)))"
  have nn: "\<not> is_nan x" "\<not> is_inf x" using fin by (cases x; simp)+
  have "N mod 10 ^ 8 < 10 ^ 8" by simp
  then have z: "length (zfill 8 (show_nat (N mod 10 ^ 8))) = 8
      \<and> list_all is_digit (zfill 8 (show_nat (N mod 10 ^ 8)))"
    by (rule zfill_8_shape)
  have "format_8f x = ((if sign_neg x then ''-'' else '''') @ show_nat (N div 10 ^ 8))
      @ ''.'' @ zfill 8 (show_nat (N mod 10 ^ 8))"
    using nn by (simp add: format_8f_def N_def Let_def)
  then show ?thesis using z by (simp only: eight_decimals_append)
qed

text \<open>A float that is not finite is printed by its name, with no digits at all.\<close>

lemma format_8f_not_finite:
  "\<not> is_finite x \<Longrightarrow> format_8f x \<in> {''inf'', ''-inf'', ''nan''}"
  by (cases x) (simp_all add: format_8f_def)

lemma row_get_example:
  "row_get (example_row date to_ccy to_amt from_ccy from_amt net) DATE_COL = date"
  "row_get (example_row date to_ccy to_amt from_ccy from_amt net) TO_CCY_COL = to_ccy"
  "row_get (example_row date to_ccy to_amt from_ccy from_amt net) TO_AMT_COL = to_amt"
  "row_get (example_row date to_ccy to_amt from_ccy from_amt net) FROM_CCY_COL = from_ccy"
  "row_get (example_row date to_ccy to_amt from_ccy from_amt net) FROM_AMT_COL = from_amt"
  "row_get (example_row date to_ccy to_amt from_ccy from_amt net) NET_WORTH_AMT_COL = net"
  by (simp_all add: row_get_def example_row_def DATE_COL_def TO_CCY_COL_def TO_AMT_COL_def
      FROM_CCY_COL_def FROM_AMT_COL_def NET_WORTH_AMT_COL_def)

lemma safe_float_blank: "strip s = [] \<Longrightarrow> safe_float (Some s) d = d"
  by (simp add: safe_float_def Let_def)

lemma safe_float_unparsable: "float_of_str (strip s) = None \<Longrightarrow> safe_float (Some s) d = d"
  by (simp add: safe_float_def Let_def)

lemma safe_float_parsed:
  "strip s \<noteq> [] \<Longrightarrow> float_of_str (strip s) = Some x \<Longrightarrow> safe_float (Some s) d = x"
  by (simp add: safe_float_def Let_def)

lemma strip_empty: "strip [] = []"
  by (simp add: strip_def strip_by_def)

lemma net_blank_is_zero: "\<not> net_worth_nonzero (example_row date to_ccy to_amt from_ccy from_amt [])"
  by (simp add: net_worth_nonzero_def row_get_example safe_float_blank strip_empty float_eq_def)

lemma example_in_token_config:
  "in_token_config example_config ''STX;1770845''"
  "\<not> in_token_config example_config ''USDC;7483231''"
  "\<not> in_token_config example_config ''BTC''"
  by (simp_all add: in_token_config_def example_config_def source_config_def TOKEN_CONFIG_def)

lemma example_stable_tokens:
  "''USDC;7483231'' \<in> stable_tokens example_config"
  "''STX;1770845'' \<notin> stable_tokens example_config"
  "''BTC'' \<notin> stable_tokens example_config"
  by (simp_all add: example_config_def source_config_def STABLE_TOKENS_def)

lemma example_lookup:
  "lookup_price example_config ''STX;1770845'' ''2024-03-05'' = Some (Fin 3 (- 1))"
  "lookup_price example_config ''STX;1770845'' ''2024-03-06'' = None"
  by (simp_all add: lookup_price_def example_config_def source_config_def)

lemma strip_2: "strip ''2'' = ''2''"
  by (simp add: str_eval)

lemma float_of_str_two: "float_of_str ''2'' = Some (Fin 1 1)"
  by (simp add: float_eval str_eval)

lemma safe_float_two: "safe_float (Some ''2'') (Fin 0 0) = Fin 1 1"
  by (simp add: safe_float_def Let_def strip_2 float_of_str_two)

lemma float_mul_2_15: "float_mul (Fin 1 1) (Fin 3 (- 1)) = Fin 3 0"
  by (simp add: float_eval)

lemma format_8f_3: "format_8f (Fin 3 0) = ''3.00000000''"
  by (simp add: float_eval str_eval)

lemma strip_date: "strip ''2024-03-05 23:59:59'' = ''2024-03-05 23:59:59''"
  by (simp add: str_eval)

lemma strptime_example: "strptime ''2024-03-05 23:59:59'' = Some (DateTime (Date 2024 3 5) 23 59 59)"
  by (simp add: str_eval date_eval)

lemma parse_datetime_utc_example:
  "parse_datetime_utc ''2024-03-05 23:59:59'' = Some (DateTime (Date 2024 3 5) 23 59 59)"
  by (simp add: parse_datetime_utc_def strip_date strptime_example)

lemma parse_datetime_utc_rejects:
  "parse_datetime_utc ''2024-03-05 23:59:59+00:00'' = None"
  "parse_datetime_utc ''2024-03-05 23:59:59.123'' = None"
  "parse_datetime_utc ''2024-03-05T23:59:59'' = None"
  "parse_datetime_utc ''2024-03-05 23:59:59Z'' = None"
  "parse_datetime_utc ''2024-03-05'' = None"
  "parse_datetime_utc '''' = None"
  by (simp_all add: parse_datetime_utc_def str_eval date_eval)

lemma isoformat_example: "isoformat (Date 2024 3 5) = ''2024-03-05''"
  by (simp add: str_eval date_eval)

text \<open>
  Claim C1, as amended. A row that reaches priced mode (its net worth reads as
  zero, the candidate chosen is a priced token, the chosen amount is not zero) has
  its date parsed by \<open>parse_datetime_utc\<close>, which is \<^verbatim>\<open>strptime\<close> with the format
  \<^verbatim>\<open>%Y-%m-%d %H:%M:%S\<close> on the stripped text. If the date does not parse, the row is
  written as it is and counted skipped. Otherwise the date part is looked up in the
  token's price map: without a price the row is written as it is and counted
  skipped; with a price the net worth amount becomes the product of amount and
  price in the format \<^verbatim>\<open>.8f\<close>, the net worth currency becomes \<^verbatim>\<open>USD;10\<close>, and the
  row is counted updated. The format gives a point and exactly eight digits at the
  end when the product is finite, and the text \<^verbatim>\<open>inf\<close>, \<^verbatim>\<open>-inf\<close> or \<^verbatim>\<open>nan\<close> when it
  is not.
\<close>

theorem priced_mode_valuation:
  assumes "\<not> net_worth_nonzero row"
    and "select_candidate cfg row = Some cand"
    and "mode cand = Price_mode"
    and "amt = safe_float (Some (amt_raw cand)) (Fin 0 0)"
    and "\<not> float_eq amt (Fin 0 0)"
  shows "(parse_datetime_utc (row_get row DATE_COL) = None
            \<longrightarrow> written (process_row cfg row st) = written st @ [row]
              \<and> skipped_rows (process_row cfg row st) = skipped_rows st + 1
              \<and> updated_rows (process_row cfg row st) = updated_rows st)
       \<and> (\<forall>dt_obj. parse_datetime_utc (row_get row DATE_COL) = Some dt_obj
              \<and> lookup_price cfg (token_code cand) (isoformat (date_of dt_obj)) = None
            \<longrightarrow> written (process_row cfg row st) = written st @ [row]
              \<and> skipped_rows (process_row cfg row st) = skipped_rows st + 1
              \<and> updated_rows (process_row cfg row st) = updated_rows st)
       \<and> (\<forall>dt_obj price. parse_datetime_utc (row_get row DATE_COL) = Some dt_obj
              \<and> lookup_price cfg (token_code cand) (isoformat (date_of dt_obj)) = Some price
            \<longrightarrow> written (process_row cfg row st)
                  = written st @ [row(NET_WORTH_AMT_COL \<mapsto> format_8f (float_mul amt price),
                                      NET_WORTH_CCY_COL \<mapsto> NET_WORTH_CCY_VALUE)]
              \<and> updated_rows (process_row cfg row st) = updated_rows st + 1
              \<and> skipped_rows (process_row cfg row st) = skipped_rows st
              \<and> (is_finite (float_mul amt price)
                    \<longrightarrow> eight_decimals (format_8f (float_mul amt price)))
              \<and> (\<not> is_finite (float_mul amt price)
                    \<longrightarrow> format_8f (float_mul amt price) \<in> {''inf'', ''-inf'', ''nan''}))"
proof -
  note p = process_row_priced [OF assms(1) assms(2) assms(5) [unfolded assms(4)] assms(3), of st]
  have a: "parse_datetime_utc (row_get row DATE_COL) = None
            \<longrightarrow> process_row cfg row st = skip_row row st"
    using p by simp
  have b: "\<forall>dt_obj. parse_datetime_utc (row_get row DATE_COL) = Some dt_obj
              \<and> lookup_price cfg (token_code cand) (isoformat (date_of dt_obj)) = None
            \<longrightarrow> process_row cfg row st = skip_row row st"
    using p by simp
  have c: "\<forall>dt_obj price. parse_datetime_utc (row_get row DATE_COL) = Some dt_obj
              \<and> lookup_price cfg (token_code cand) (isoformat (date_of dt_obj)) = Some price
            \<longrightarrow> process_row cfg row st = update_row row (float_mul amt price) st"
    using p assms(4) by simp
  have d: "\<forall>x. (is_finite x \<longrightarrow> eight_decimals (format_8f x))
      \<and> (\<not> is_finite x \<longrightarrow> format_8f x \<in> {''inf'', ''-inf'', ''nan''})"
    using format_8f_eight_decimals format_8f_not_finite by blast
  show ?thesis
    using a b c d by (auto simp add: skip_row_fields update_row_fields)
qed

theorem priced_mode_valuation_witness:
  "\<not> net_worth_nonzero (example_row ''2024-03-05 23:59:59'' ''STX;1770845'' ''2'' ''BTC'' ''7'' [])
   \<and> select_candidate example_config
        (example_row ''2024-03-05 23:59:59'' ''STX;1770845'' ''2'' ''BTC'' ''7'' [])
       = Some \<lparr>token_code = ''STX;1770845'', amt_raw = ''2'', mode = Price_mode\<rparr>
   \<and> \<not> float_eq (safe_float (Some ''2'') (Fin 0 0)) (Fin 0 0)
   \<and> written (process_row example_config
        (example_row ''2024-03-05 23:59:59'' ''STX;1770845'' ''2'' ''BTC'' ''7'' []) start)
       = [(example_row ''2024-03-05 23:59:59'' ''STX;1770845'' ''2'' ''BTC'' ''7'' [])
            (NET_WORTH_AMT_COL \<mapsto> ''3.00000000'', NET_WORTH_CCY_COL \<mapsto> ''USD;10'')]
   \<and> updated_rows (process_row example_config
        (example_row ''2024-03-05 23:59:59'' ''STX;1770845'' ''2'' ''BTC'' ''7'' []) start) = 1
   \<and> skipped_rows (process_row example_config
        (example_row ''2024-03-05 23:59:59'' ''STX;1770845'' ''2'' ''BTC'' ''7'' []) start) = 0"
proof -
  let ?row = "example_row ''2024-03-05 23:59:59'' ''STX;1770845'' ''2'' ''BTC'' ''7'' []"
  let ?cand = "\<lparr>token_code = ''STX;1770845'', amt_raw = ''2'', mode = Price_mode\<rparr>"
  have h1: "\<not> net_worth_nonzero ?row"
    by (rule net_blank_is_zero)
  have h2: "select_candidate example_config ?row = Some ?cand"
    by (simp add: select_candidate_def row_get_example example_in_token_config)
  have h3: "mode ?cand = Price_mode"
    by simp
  have h4: "Fin 1 1 = safe_float (Some (amt_raw ?cand)) (Fin 0 0)"
    by (simp add: safe_float_two)
  have h5: "\<not> float_eq (Fin 1 1) (Fin 0 0)"
    by (simp add: float_eq_def)
  note t = priced_mode_valuation [OF h1 h2 h3 h4 h5, of start]
  have "parse_datetime_utc (row_get ?row DATE_COL) = Some (DateTime (Date 2024 3 5) 23 59 59)
      \<and> lookup_price example_config (token_code ?cand)
            (isoformat (date_of (DateTime (Date 2024 3 5) 23 59 59))) = Some (Fin 3 (- 1))"
    by (simp add: row_get_example parse_datetime_utc_example isoformat_example example_lookup)
  with t have "written (process_row example_config ?row start)
                  = written start @ [?row(NET_WORTH_AMT_COL \<mapsto> format_8f (float_mul (Fin 1 1) (Fin 3 (- 1))),
                                      NET_WORTH_CCY_COL \<mapsto> NET_WORTH_CCY_VALUE)]
              \<and> updated_rows (process_row example_config ?row start) = updated_rows start + 1
              \<and> skipped_rows (process_row example_config ?row start) = skipped_rows start"
    by blast
  then show ?thesis
    using h1 h2 h5
    by (simp add: float_mul_2_15 format_8f_3 NET_WORTH_CCY_VALUE_def start_def safe_float_two)
qed

lemma strip_inf: "strip ''inf'' = ''inf''"
  by (simp add: str_eval)

lemma float_of_str_inf: "float_of_str ''inf'' = Some PInf"
  by (simp add: float_eval str_eval)

lemma safe_float_inf: "safe_float (Some ''inf'') (Fin 0 0) = PInf"
  by (simp add: safe_float_def Let_def strip_inf float_of_str_inf)

lemma float_mul_inf_15: "float_mul PInf (Fin 3 (- 1)) = PInf"
  by (simp add: float_eval)

lemma format_8f_inf: "format_8f PInf = ''inf''"
  by (simp add: format_8f_def)

lemma inf_example_run:
  "run example_config [example_row ''2024-03-05 23:59:59'' ''STX;1770845'' ''inf'' ''BTC'' ''7'' []]
     = update_row (example_row ''2024-03-05 23:59:59'' ''STX;1770845'' ''inf'' ''BTC'' ''7'' [])
         PInf start"
proof -
  let ?row = "example_row ''2024-03-05 23:59:59'' ''STX;1770845'' ''inf'' ''BTC'' ''7'' []"
  let ?cand = "\<lparr>token_code = ''STX;1770845'', amt_raw = ''inf'', mode = Price_mode\<rparr>"
  have h1: "\<not> net_worth_nonzero ?row"
    by (rule net_blank_is_zero)
  have h2: "select_candidate example_config ?row = Some ?cand"
    by (simp add: select_candidate_def row_get_example example_in_token_config)
  have h5: "\<not> float_eq (safe_float (Some (amt_raw ?cand)) (Fin 0 0)) (Fin 0 0)"
    by (simp add: safe_float_inf float_eq_def)
  have h3: "mode ?cand = Price_mode"
    by simp
  show ?thesis
    unfolding run_single
    by (simp add: process_row_priced [OF h1 h2 h5 h3] row_get_example
        parse_datetime_utc_example isoformat_example example_lookup safe_float_inf float_mul_inf_15)
qed

text \<open>
  The claim as stated fails: the amount \<^verbatim>\<open>inf\<close>, which \<^verbatim>\<open>float\<close> reads as infinity,
  reaches priced mode, and with the price 1.5 found the row is counted updated and
  its net worth amount written is \<^verbatim>\<open>inf\<close>, which has no decimal places.
\<close>

theorem priced_mode_not_eight_decimals:
  "\<not> net_worth_nonzero
       (example_row ''2024-03-05 23:59:59'' ''STX;1770845'' ''inf'' ''BTC'' ''7'' [])
   \<and> select_candidate example_config
        (example_row ''2024-03-05 23:59:59'' ''STX;1770845'' ''inf'' ''BTC'' ''7'' [])
       = Some \<lparr>token_code = ''STX;1770845'', amt_raw = ''inf'', mode = Price_mode\<rparr>
   \<and> \<not> float_eq (safe_float (Some ''inf'') (Fin 0 0)) (Fin 0 0)
   \<and> row_updated example_config
        (example_row ''2024-03-05 23:59:59'' ''STX;1770845'' ''inf'' ''BTC'' ''7'' [])
   \<and> row_written example_config
        (example_row ''2024-03-05 23:59:59'' ''STX;1770845'' ''inf'' ''BTC'' ''7'' [])
        NET_WORTH_AMT_COL = Some ''inf''
   \<and> \<not> eight_decimals ''inf''"
proof -
  let ?row = "example_row ''2024-03-05 23:59:59'' ''STX;1770845'' ''inf'' ''BTC'' ''7'' []"
  have h1: "\<not> net_worth_nonzero ?row"
    by (rule net_blank_is_zero)
  have h2: "select_candidate example_config ?row
      = Some \<lparr>token_code = ''STX;1770845'', amt_raw = ''inf'', mode = Price_mode\<rparr>"
    by (simp add: select_candidate_def row_get_example example_in_token_config)
  have h5: "\<not> float_eq (safe_float (Some ''inf'') (Fin 0 0)) (Fin 0 0)"
    by (simp add: safe_float_inf float_eq_def)
  have w: "row_updated example_config ?row
      \<and> row_written example_config ?row NET_WORTH_AMT_COL = Some ''inf''"
    by (simp add: row_written_def row_updated_def inf_example_run update_row_fields format_8f_inf
        start_def net_worth_cols_distinct)
  have "\<not> eight_decimals ''inf''"
    by (simp add: eight_decimals_def)
  then show ?thesis
    using h1 h2 h5 w by simp
qed

text \<open>
  Claim C9. A row whose net worth reads as zero, for which a candidate token was
  chosen (priced or stable, whatever the other side of the row holds) and whose
  chosen amount reads as zero, is written as it is and counted skipped, not
  updated; an amount that is blank or does not parse reads as zero.
\<close>

theorem zero_amount_skip:
  assumes "\<not> net_worth_nonzero row"
    and "select_candidate cfg row = Some cand"
    and "float_eq (safe_float (Some (amt_raw cand)) (Fin 0 0)) (Fin 0 0)"
  shows "written (process_row cfg row st) = written st @ [row]
       \<and> skipped_rows (process_row cfg row st) = skipped_rows st + 1
       \<and> updated_rows (process_row cfg row st) = updated_rows st
       \<and> (strip s = [] \<or> float_of_str (strip s) = None
            \<longrightarrow> float_eq (safe_float (Some s) (Fin 0 0)) (Fin 0 0))"
proof -
  have "process_row cfg row st = skip_row row st"
    using assms by (rule process_row_zero_amount)
  moreover have "strip s = [] \<or> float_of_str (strip s) = None
            \<longrightarrow> float_eq (safe_float (Some s) (Fin 0 0)) (Fin 0 0)"
    by (auto simp: safe_float_blank safe_float_unparsable float_eq_def)
  ultimately show ?thesis
    by (simp add: skip_row_fields)
qed

lemma strip_0: "strip ''0'' = ''0''"
  by (simp add: str_eval)

lemma float_of_str_0: "float_of_str ''0'' = Some (Fin 0 0)"
  by (simp add: float_eval str_eval)

lemma safe_float_0: "safe_float (Some ''0'') (Fin 0 0) = Fin 0 0"
  by (simp add: safe_float_def Let_def strip_0 float_of_str_0)

theorem zero_amount_skip_witness:
  "\<not> net_worth_nonzero (example_row ''2024-03-05 23:59:59'' ''STX;1770845'' ''0'' ''USDC;7483231'' ''5'' [])
   \<and> select_candidate example_config
        (example_row ''2024-03-05 23:59:59'' ''STX;1770845'' ''0'' ''USDC;7483231'' ''5'' [])
       = Some \<lparr>token_code = ''STX;1770845'', amt_raw = ''0'', mode = Price_mode\<rparr>
   \<and> float_eq (safe_float (Some ''0'') (Fin 0 0)) (Fin 0 0)
   \<and> written (process_row example_config
        (example_row ''2024-03-05 23:59:59'' ''STX;1770845'' ''0'' ''USDC;7483231'' ''5'' []) start)
       = [example_row ''2024-03-05 23:59:59'' ''STX;1770845'' ''0'' ''USDC;7483231'' ''5'' []]
   \<and> skipped_rows (process_row example_config
        (example_row ''2024-03-05 23:59:59'' ''STX;1770845'' ''0'' ''USDC;7483231'' ''5'' []) start) = 1
   \<and> updated_rows (process_row example_config
        (example_row ''2024-03-05 23:59:59'' ''STX;1770845'' ''0'' ''USDC;7483231'' ''5'' []) start) = 0"
proof -
  let ?row = "example_row ''2024-03-05 23:59:59'' ''STX;1770845'' ''0'' ''USDC;7483231'' ''5'' []"
  let ?cand = "\<lparr>token_code = ''STX;1770845'', amt_raw = ''0'', mode = Price_mode\<rparr>"
  have h1: "\<not> net_worth_nonzero ?row"
    by (rule net_blank_is_zero)
  have h2: "select_candidate example_config ?row = Some ?cand"
    by (simp add: select_candidate_def row_get_example example_in_token_config)
  have h3: "float_eq (safe_float (Some (amt_raw ?cand)) (Fin 0 0)) (Fin 0 0)"
    by (simp add: safe_float_0 float_eq_def)
  note t = zero_amount_skip [OF h1 h2 h3, of start]
  show ?thesis
    using t h1 h2 h3 by (simp add: start_def)
qed

text \<open>
  Claim C3. For a row whose net worth reads as zero the candidate is chosen in a
  fixed order: the "to" currency if it is a priced token (with the "to" amount),
  else the "from" currency if it is a priced token (with the "from" amount), else
  the "to" currency if it is a stable token, else the "from" currency if it is a
  stable token; if none of the four holds the row is written as it is and no
  counter changes. In particular a row with a priced "to" currency and a stable
  "from" currency is valued in priced mode with the "to" amount.
\<close>

theorem token_selection_precedence:
  "(in_token_config cfg (row_get row TO_CCY_COL)
      \<longrightarrow> select_candidate cfg row
          = Some \<lparr>token_code = row_get row TO_CCY_COL, amt_raw = row_get row TO_AMT_COL,
                   mode = Price_mode\<rparr>)
   \<and> (\<not> in_token_config cfg (row_get row TO_CCY_COL)
        \<and> in_token_config cfg (row_get row FROM_CCY_COL)
      \<longrightarrow> select_candidate cfg row
          = Some \<lparr>token_code = row_get row FROM_CCY_COL, amt_raw = row_get row FROM_AMT_COL,
                   mode = Price_mode\<rparr>)
   \<and> (\<not> in_token_config cfg (row_get row TO_CCY_COL)
        \<and> \<not> in_token_config cfg (row_get row FROM_CCY_COL)
        \<and> row_get row TO_CCY_COL \<in> stable_tokens cfg
      \<longrightarrow> select_candidate cfg row
          = Some \<lparr>token_code = row_get row TO_CCY_COL, amt_raw = row_get row TO_AMT_COL,
                   mode = Stable_mode\<rparr>)
   \<and> (\<not> in_token_config cfg (row_get row TO_CCY_COL)
        \<and> \<not> in_token_config cfg (row_get row FROM_CCY_COL)
        \<and> row_get row TO_CCY_COL \<notin> stable_tokens cfg
        \<and> row_get row FROM_CCY_COL \<in> stable_tokens cfg
      \<longrightarrow> select_candidate cfg row
          = Some \<lparr>token_code = row_get row FROM_CCY_COL, amt_raw = row_get row FROM_AMT_COL,
                   mode = Stable_mode\<rparr>)
   \<and> (\<not> in_token_config cfg (row_get row TO_CCY_COL)
        \<and> \<not> in_token_config cfg (row_get row FROM_CCY_COL)
        \<and> row_get row TO_CCY_COL \<notin> stable_tokens cfg
        \<and> row_get row FROM_CCY_COL \<notin> stable_tokens cfg
        \<and> \<not> net_worth_nonzero row
      \<longrightarrow> select_candidate cfg row = None
        \<and> written (process_row cfg row st) = written st @ [row]
        \<and> updated_rows (process_row cfg row st) = updated_rows st
        \<and> skipped_rows (process_row cfg row st) = skipped_rows st)
   \<and> (in_token_config cfg (row_get row TO_CCY_COL)
        \<and> row_get row FROM_CCY_COL \<in> stable_tokens cfg
        \<and> \<not> net_worth_nonzero row
      \<longrightarrow> process_row cfg row st =
          (if float_eq (safe_float (Some (row_get row TO_AMT_COL)) (Fin 0 0)) (Fin 0 0)
           then skip_row row st
           else
             (case parse_datetime_utc (row_get row DATE_COL) of
                None \<Rightarrow> skip_row row st
              | Some dt_obj \<Rightarrow>
                  (case lookup_price cfg (row_get row TO_CCY_COL) (isoformat (date_of dt_obj)) of
                     None \<Rightarrow> skip_row row st
                   | Some price \<Rightarrow>
                       update_row row
                         (float_mul (safe_float (Some (row_get row TO_AMT_COL)) (Fin 0 0)) price)
                         st))))"
proof -
  have none: "\<not> in_token_config cfg (row_get row TO_CCY_COL)
        \<and> \<not> in_token_config cfg (row_get row FROM_CCY_COL)
        \<and> row_get row TO_CCY_COL \<notin> stable_tokens cfg
        \<and> row_get row FROM_CCY_COL \<notin> stable_tokens cfg
        \<and> \<not> net_worth_nonzero row
      \<longrightarrow> select_candidate cfg row = None
        \<and> written (process_row cfg row st) = written st @ [row]
        \<and> updated_rows (process_row cfg row st) = updated_rows st
        \<and> skipped_rows (process_row cfg row st) = skipped_rows st"
  proof (intro impI, elim conjE)
    assume a: "\<not> in_token_config cfg (row_get row TO_CCY_COL)"
      "\<not> in_token_config cfg (row_get row FROM_CCY_COL)"
      "row_get row TO_CCY_COL \<notin> stable_tokens cfg"
      "row_get row FROM_CCY_COL \<notin> stable_tokens cfg"
      and z: "\<not> net_worth_nonzero row"
    have s: "select_candidate cfg row = None"
      using a by (simp add: select_candidate_def Let_def)
    have "process_row cfg row st = writerow row st"
      using z s by (rule process_row_no_candidate)
    then show "select_candidate cfg row = None
        \<and> written (process_row cfg row st) = written st @ [row]
        \<and> updated_rows (process_row cfg row st) = updated_rows st
        \<and> skipped_rows (process_row cfg row st) = skipped_rows st"
      using s by (simp add: writerow_fields)
  qed
  have both: "in_token_config cfg (row_get row TO_CCY_COL)
        \<and> row_get row FROM_CCY_COL \<in> stable_tokens cfg
        \<and> \<not> net_worth_nonzero row
      \<longrightarrow> process_row cfg row st =
          (if float_eq (safe_float (Some (row_get row TO_AMT_COL)) (Fin 0 0)) (Fin 0 0)
           then skip_row row st
           else
             (case parse_datetime_utc (row_get row DATE_COL) of
                None \<Rightarrow> skip_row row st
              | Some dt_obj \<Rightarrow>
                  (case lookup_price cfg (row_get row TO_CCY_COL) (isoformat (date_of dt_obj)) of
                     None \<Rightarrow> skip_row row st
                   | Some price \<Rightarrow>
                       update_row row
                         (float_mul (safe_float (Some (row_get row TO_AMT_COL)) (Fin 0 0)) price)
                         st)))"
    by (simp add: process_row_def select_candidate_def net_worth_nonzero_def Let_def
        split: option.splits)
  show ?thesis
    using none both by (simp add: select_candidate_def Let_def)
qed

theorem token_selection_precedence_witness:
  "in_token_config example_config ''STX;1770845''
   \<and> ''USDC;7483231'' \<in> stable_tokens example_config
   \<and> \<not> net_worth_nonzero
         (example_row ''2024-03-05 23:59:59'' ''STX;1770845'' ''2'' ''USDC;7483231'' ''7'' [])
   \<and> select_candidate example_config
        (example_row ''2024-03-05 23:59:59'' ''STX;1770845'' ''2'' ''USDC;7483231'' ''7'' [])
       = Some \<lparr>token_code = ''STX;1770845'', amt_raw = ''2'', mode = Price_mode\<rparr>
   \<and> written (process_row example_config
        (example_row ''2024-03-05 23:59:59'' ''STX;1770845'' ''2'' ''USDC;7483231'' ''7'' []) start)
       = [(example_row ''2024-03-05 23:59:59'' ''STX;1770845'' ''2'' ''USDC;7483231'' ''7'' [])
            (NET_WORTH_AMT_COL \<mapsto> ''3.00000000'', NET_WORTH_CCY_COL \<mapsto> ''USD;10'')]"
proof -
  let ?row = "example_row ''2024-03-05 23:59:59'' ''STX;1770845'' ''2'' ''USDC;7483231'' ''7'' []"
  have h1: "in_token_config example_config (row_get ?row TO_CCY_COL)"
    by (simp add: row_get_example example_in_token_config)
  have h2: "row_get ?row FROM_CCY_COL \<in> stable_tokens example_config"
    by (simp add: row_get_example example_stable_tokens)
  have h3: "\<not> net_worth_nonzero ?row"
    by (rule net_blank_is_zero)
  note t = token_selection_precedence [of example_config ?row start]
  have sel: "select_candidate example_config ?row
      = Some \<lparr>token_code = row_get ?row TO_CCY_COL, amt_raw = row_get ?row TO_AMT_COL,
               mode = Price_mode\<rparr>"
    using t h1 by blast
  have "process_row example_config ?row start =
          (if float_eq (safe_float (Some (row_get ?row TO_AMT_COL)) (Fin 0 0)) (Fin 0 0)
           then skip_row ?row start
           else
             (case parse_datetime_utc (row_get ?row DATE_COL) of
                None \<Rightarrow> skip_row ?row start
              | Some dt_obj \<Rightarrow>
                  (case lookup_price example_config (row_get ?row TO_CCY_COL)
                          (isoformat (date_of dt_obj)) of
                     None \<Rightarrow> skip_row ?row start
                   | Some price \<Rightarrow>
                       update_row ?row
                         (float_mul (safe_float (Some (row_get ?row TO_AMT_COL)) (Fin 0 0)) price)
                         start)))"
    using t h1 h2 h3 by blast
  then have "process_row example_config ?row start = update_row ?row (Fin 3 0) start"
    by (simp add: row_get_example safe_float_two float_eq_def parse_datetime_utc_example
        isoformat_example example_lookup float_mul_2_15)
  then have "written (process_row example_config ?row start)
      = [?row(NET_WORTH_AMT_COL \<mapsto> ''3.00000000'', NET_WORTH_CCY_COL \<mapsto> ''USD;10'')]"
    by (simp add: update_row_fields format_8f_3 NET_WORTH_CCY_VALUE_def start_def)
  then show ?thesis
    using sel h3 by (simp add: row_get_example example_in_token_config example_stable_tokens)
qed

lemma strip_150: "strip ''150.25000000'' = ''150.25000000''"
  by (simp add: str_eval)

lemma float_of_str_150: "float_of_str ''150.25000000'' = Some (Fin 601 (- 2))"
  by (simp add: float_eval str_eval)

lemma safe_float_150: "safe_float (Some ''150.25000000'') (Fin 0 0) = Fin 601 (- 2)"
  by (simp add: safe_float_def Let_def strip_150 float_of_str_150)

lemma format_8f_150: "format_8f (Fin 601 (- 2)) = ''150.25000000''"
  by (simp add: float_eval str_eval)

lemma strip_0123: "strip ''0.123456789'' = ''0.123456789''"
  by (simp add: str_eval)

lemma float_of_str_0123: "float_of_str ''0.123456789'' = Some (Fin 8895999182988127 (- 56))"
  by (simp add: float_eval str_eval)

lemma safe_float_0123: "safe_float (Some ''0.123456789'') (Fin 0 0) = Fin 8895999182988127 (- 56)"
  by (simp add: safe_float_def Let_def strip_0123 float_of_str_0123)

lemma format_8f_0123: "format_8f (Fin 8895999182988127 (- 56)) = ''0.12345679''"
  by (simp add: float_eval str_eval)

text \<open>
  What the stable path of the code computes. A row valued in stable mode with an
  amount that is not zero gets as net worth amount the amount read as a float and
  printed in the format \<^verbatim>\<open>.8f\<close>, with no price applied, and as net worth currency
  \<^verbatim>\<open>USD;10\<close>; the row is counted updated. The format gives a point and exactly
  eight digits at the end when the amount is finite, so an amount with more
  decimals is rounded, and the text \<^verbatim>\<open>inf\<close>, \<^verbatim>\<open>-inf\<close> or \<^verbatim>\<open>nan\<close> when it is not. The
  amount \<^verbatim>\<open>150.25000000\<close> gives the net worth amount \<^verbatim>\<open>150.25000000\<close>.
\<close>

theorem stable_mode_valuation:
  assumes "\<not> net_worth_nonzero row"
    and "select_candidate cfg row = Some cand"
    and "mode cand = Stable_mode"
    and "amt = safe_float (Some (amt_raw cand)) (Fin 0 0)"
    and "\<not> float_eq amt (Fin 0 0)"
  shows "written (process_row cfg row st)
           = written st @ [row(NET_WORTH_AMT_COL \<mapsto> format_8f amt,
                               NET_WORTH_CCY_COL \<mapsto> NET_WORTH_CCY_VALUE)]
       \<and> updated_rows (process_row cfg row st) = updated_rows st + 1
       \<and> skipped_rows (process_row cfg row st) = skipped_rows st
       \<and> (is_finite amt \<longrightarrow> eight_decimals (format_8f amt))
       \<and> (\<not> is_finite amt \<longrightarrow> format_8f amt \<in> {''inf'', ''-inf'', ''nan''})
       \<and> format_8f (safe_float (Some ''150.25000000'') (Fin 0 0)) = ''150.25000000''"
proof -
  have "process_row cfg row st = update_row row amt st"
    using process_row_stable [OF assms(1) assms(2) assms(5) [unfolded assms(4)] assms(3), of st]
      assms(4) by simp
  moreover have "\<not> is_finite amt \<longrightarrow> format_8f amt \<in> {''inf'', ''-inf'', ''nan''}"
    using format_8f_not_finite by blast
  ultimately show ?thesis
    by (simp add: update_row_fields format_8f_eight_decimals safe_float_150 format_8f_150)
qed

theorem stable_mode_valuation_witness:
  "\<not> net_worth_nonzero (example_row ''2024-03-05 23:59:59'' ''USDC;7483231'' ''150.25000000'' ''BTC'' ''1'' [])
   \<and> select_candidate example_config
        (example_row ''2024-03-05 23:59:59'' ''USDC;7483231'' ''150.25000000'' ''BTC'' ''1'' [])
       = Some \<lparr>token_code = ''USDC;7483231'', amt_raw = ''150.25000000'', mode = Stable_mode\<rparr>
   \<and> \<not> float_eq (safe_float (Some ''150.25000000'') (Fin 0 0)) (Fin 0 0)
   \<and> written (process_row example_config
        (example_row ''2024-03-05 23:59:59'' ''USDC;7483231'' ''150.25000000'' ''BTC'' ''1'' []) start)
       = [(example_row ''2024-03-05 23:59:59'' ''USDC;7483231'' ''150.25000000'' ''BTC'' ''1'' [])
            (NET_WORTH_AMT_COL \<mapsto> ''150.25000000'', NET_WORTH_CCY_COL \<mapsto> ''USD;10'')]
   \<and> updated_rows (process_row example_config
        (example_row ''2024-03-05 23:59:59'' ''USDC;7483231'' ''150.25000000'' ''BTC'' ''1'' []) start) = 1
   \<and> skipped_rows (process_row example_config
        (example_row ''2024-03-05 23:59:59'' ''USDC;7483231'' ''150.25000000'' ''BTC'' ''1'' []) start) = 0"
proof -
  let ?row = "example_row ''2024-03-05 23:59:59'' ''USDC;7483231'' ''150.25000000'' ''BTC'' ''1'' []"
  let ?cand = "\<lparr>token_code = ''USDC;7483231'', amt_raw = ''150.25000000'', mode = Stable_mode\<rparr>"
  have h1: "\<not> net_worth_nonzero ?row"
    by (rule net_blank_is_zero)
  have h2: "select_candidate example_config ?row = Some ?cand"
    by (simp add: select_candidate_def row_get_example example_in_token_config
        example_stable_tokens)
  have h3: "mode ?cand = Stable_mode"
    by simp
  have h4: "Fin 601 (- 2) = safe_float (Some (amt_raw ?cand)) (Fin 0 0)"
    by (simp add: safe_float_150)
  have h5: "\<not> float_eq (Fin 601 (- 2)) (Fin 0 0)"
    by (simp add: float_eq_def)
  note t = stable_mode_valuation [OF h1 h2 h3 h4 h5, of start]
  show ?thesis
    using t h1 h2 h5
    by (simp add: format_8f_150 NET_WORTH_CCY_VALUE_def start_def safe_float_150)
qed

text \<open>
  Claim C6 against the code. The claim has the net worth amount of a row valued in
  stable mode set to the transfer amount verbatim, with no conversion, and the
  comments of the script say the same (\<^verbatim>\<open>just copy amount\<close>, \<^verbatim>\<open>copy amount directly\<close>).
  The code does not copy the text: it writes the amount read as a float and
  printed in the format \<^verbatim>\<open>.8f\<close>. The row with the stable amount \<^verbatim>\<open>0.123456789\<close> is
  counted updated and its net worth amount written is \<^verbatim>\<open>0.12345679\<close>.
\<close>

theorem stable_mode_not_verbatim:
  "row_written example_config
     (example_row ''2024-03-05 23:59:59'' ''USDC;7483231'' ''0.123456789'' ''BTC'' ''1'' [])
     NET_WORTH_AMT_COL = Some ''0.12345679''
   \<and> row_updated example_config
     (example_row ''2024-03-05 23:59:59'' ''USDC;7483231'' ''0.123456789'' ''BTC'' ''1'' [])"
proof -
  let ?row = "example_row ''2024-03-05 23:59:59'' ''USDC;7483231'' ''0.123456789'' ''BTC'' ''1'' []"
  let ?cand = "\<lparr>token_code = ''USDC;7483231'', amt_raw = ''0.123456789'', mode = Stable_mode\<rparr>"
  have h1: "\<not> net_worth_nonzero ?row"
    by (rule net_blank_is_zero)
  have h2: "select_candidate example_config ?row = Some ?cand"
    by (simp add: select_candidate_def row_get_example example_in_token_config
        example_stable_tokens)
  have h5: "\<not> float_eq (safe_float (Some (amt_raw ?cand)) (Fin 0 0)) (Fin 0 0)"
    by (simp add: safe_float_0123 float_eq_def)
  have "process_row example_config ?row start
      = update_row ?row (safe_float (Some (amt_raw ?cand)) (Fin 0 0)) start"
    using h1 h2 h5 by (rule process_row_stable) simp
  then have "run example_config [?row] = update_row ?row (Fin 8895999182988127 (- 56)) start"
    by (simp add: run_def safe_float_0123)
  then show ?thesis
    by (simp add: row_written_def row_updated_def update_row_fields format_8f_0123 start_def
        net_worth_cols_distinct)
qed

text \<open>How a row is treated does not depend on the state of the loop.\<close>

lemma process_row_uniform:
  "(\<forall>st. process_row cfg row st = writerow row st)
   \<or> (\<forall>st. process_row cfg row st = skip_row row st)
   \<or> (\<exists>nv. \<forall>st. process_row cfg row st = update_row row nv st)"
proof (cases "net_worth_nonzero row")
  case True
  then show ?thesis by (simp add: process_row_already_priced)
next
  case nz: False
  show ?thesis
  proof (cases "select_candidate cfg row")
    case None
    then show ?thesis using nz by (simp add: process_row_no_candidate)
  next
    case (Some cand)
    show ?thesis
    proof (cases "float_eq (safe_float (Some (amt_raw cand)) (Fin 0 0)) (Fin 0 0)")
      case True
      then show ?thesis using nz Some by (simp add: process_row_zero_amount)
    next
      case amt: False
      show ?thesis
      proof (cases "mode cand")
        case Stable_mode
        then show ?thesis using nz Some amt by (auto simp: process_row_stable)
      next
        case Price_mode
        note p = process_row_priced [OF nz Some amt Price_mode]
        show ?thesis
        proof (cases "parse_datetime_utc (row_get row DATE_COL)")
          case None
          then show ?thesis using p by simp
        next
          case dt: (Some dt_obj)
          show ?thesis
          proof (cases "lookup_price cfg (token_code cand) (isoformat (date_of dt_obj))")
            case None
            then show ?thesis using p dt by simp
          next
            case (Some price)
            then have "\<forall>st. process_row cfg row st
                = update_row row (float_mul (safe_float (Some (amt_raw cand)) (Fin 0 0)) price) st"
              using p dt by simp
            then show ?thesis by blast
          qed
        qed
      qed
    qed
  qed
qed

lemma process_row_written:
  "written (process_row cfg row st) = written st @ [row_written cfg row]"
proof -
  have "\<exists>r. (\<forall>s. written (process_row cfg row s) = written s @ [r])"
    using process_row_uniform [of cfg row]
    by (auto simp: writerow_fields skip_row_fields update_row_fields)
  then obtain r where r: "\<And>s. written (process_row cfg row s) = written s @ [r]"
    by blast
  then have "row_written cfg row = r"
    by (simp add: row_written_def run_single)
  then show ?thesis
    using r by simp
qed

lemma process_row_updated:
  "updated_rows (process_row cfg row st)
     = updated_rows st + (if row_updated cfg row then 1 else 0)"
proof -
  have "\<exists>n. (n = 0 \<or> n = 1) \<and> (\<forall>s. updated_rows (process_row cfg row s) = updated_rows s + n)"
    using process_row_uniform [of cfg row]
    by (auto simp: writerow_fields skip_row_fields update_row_fields)
  then obtain n where n: "n = 0 \<or> n = 1"
      "\<And>s. updated_rows (process_row cfg row s) = updated_rows s + n"
    by blast
  then have "row_updated cfg row \<longleftrightarrow> n = 1"
    by (auto simp: row_updated_def run_single start_def)
  then show ?thesis
    using n by auto
qed

lemma steps_written:
  "written (foldl (\<lambda>st row. process_row cfg row st) st rows)
     = written st @ map (row_written cfg) rows"
  by (induction rows arbitrary: st) (simp_all add: process_row_written)

lemma steps_updated:
  "updated_rows (foldl (\<lambda>st row. process_row cfg row st) st rows)
     = updated_rows st + length (filter (row_updated cfg) rows)"
  by (induction rows arbitrary: st) (simp_all add: process_row_updated)

lemma run_written: "written (run cfg rows) = map (row_written cfg) rows"
  by (simp add: run_def steps_written start_def)

lemma run_updated: "updated_rows (run cfg rows) = length (filter (row_updated cfg) rows)"
  by (simp add: run_def steps_updated start_def)

lemma row_written_cases:
  "(row_written cfg row = row \<and> \<not> row_updated cfg row)
   \<or> (\<exists>nv. row_written cfg row
              = row(NET_WORTH_AMT_COL \<mapsto> format_8f nv, NET_WORTH_CCY_COL \<mapsto> NET_WORTH_CCY_VALUE)
            \<and> row_updated cfg row)"
  using process_row_outcome [of cfg row start]
  by (auto simp: row_written_def row_updated_def run_single writerow_fields skip_row_fields
      update_row_fields start_def)

lemma row_written_frame:
  "col \<noteq> NET_WORTH_AMT_COL \<Longrightarrow> col \<noteq> NET_WORTH_CCY_COL \<Longrightarrow> row_written cfg row col = row col"
  using row_written_cases [of cfg row] by auto

lemma row_written_unchanged: "\<not> row_updated cfg row \<Longrightarrow> row_written cfg row = row"
  using row_written_cases [of cfg row] by auto

lemma nonzero_not_updated: "net_worth_nonzero row \<Longrightarrow> \<not> row_updated cfg row"
  by (simp add: row_updated_def run_single process_row_already_priced writerow_fields start_def)

lemma row_get_upd_other:
  "col \<noteq> NET_WORTH_AMT_COL \<Longrightarrow> col \<noteq> NET_WORTH_CCY_COL
   \<Longrightarrow> row_get (row(NET_WORTH_AMT_COL \<mapsto> a, NET_WORTH_CCY_COL \<mapsto> c)) col = row_get row col"
  by (simp add: row_get_def)

lemma cols_not_net_worth:
  "TO_CCY_COL \<noteq> NET_WORTH_AMT_COL" "TO_CCY_COL \<noteq> NET_WORTH_CCY_COL"
  "TO_AMT_COL \<noteq> NET_WORTH_AMT_COL" "TO_AMT_COL \<noteq> NET_WORTH_CCY_COL"
  "FROM_CCY_COL \<noteq> NET_WORTH_AMT_COL" "FROM_CCY_COL \<noteq> NET_WORTH_CCY_COL"
  "FROM_AMT_COL \<noteq> NET_WORTH_AMT_COL" "FROM_AMT_COL \<noteq> NET_WORTH_CCY_COL"
  "DATE_COL \<noteq> NET_WORTH_AMT_COL" "DATE_COL \<noteq> NET_WORTH_CCY_COL"
  by (simp_all add: DATE_COL_def TO_CCY_COL_def TO_AMT_COL_def FROM_CCY_COL_def FROM_AMT_COL_def
      NET_WORTH_AMT_COL_def NET_WORTH_CCY_COL_def)

text \<open>
  On the dict of a line with as many fields as the header, the body of the loop is
  \<open>process_row\<close> on the row of the line.
\<close>

lemma texts_writerow:
  "surplus d = None \<Longrightarrow> DictWriter_writerow d st = Inr (writerow (texts d) st)"
  by (simp add: DictWriter_writerow_def)

lemma get_cell_texts:
  "cells d col \<noteq> Some None \<Longrightarrow> get_cell d col = Some (row_get (texts d) col)"
  by (cases "cells d col") (auto simp: get_cell_def row_get_def texts_def)

lemma choose_token_texts:
  assumes "cells d TO_CCY_COL \<noteq> Some None" "cells d FROM_CCY_COL \<noteq> Some None"
    "cells d TO_AMT_COL \<noteq> Some None" "cells d FROM_AMT_COL \<noteq> Some None"
  shows "choose_token cfg d
     = map_option (\<lambda>cand. \<lparr>chosen_token = token_code cand, chosen_amt = Some (amt_raw cand),
                             chosen_mode = mode cand\<rparr>) (select_candidate cfg (texts d))"
  by (simp add: choose_token_def select_candidate_def get_cell_texts assms priced_code_def
      stable_code_def Let_def)

lemma texts_update:
  "texts (d\<lparr>cells := (cells d)(a \<mapsto> Some x, c \<mapsto> Some y)\<rparr>) = (texts d)(a \<mapsto> x, c \<mapsto> y)"
  by (auto simp: texts_def fun_eq_iff)

lemma process_dict_row:
  assumes "surplus d = None"
    and "cells d NET_WORTH_AMT_COL \<noteq> Some None" "cells d DATE_COL \<noteq> Some None"
    and "cells d TO_CCY_COL \<noteq> Some None" "cells d FROM_CCY_COL \<noteq> Some None"
    and "cells d TO_AMT_COL \<noteq> Some None" "cells d FROM_AMT_COL \<noteq> Some None"
  shows "process_dict cfg d st = Inr (process_row cfg (texts d) st)"
proof -
  have w: "\<And>s. DictWriter_writerow d s = Inr (writerow (texts d) s)"
    using assms(1) by (simp add: DictWriter_writerow_def)
  have s: "\<And>s. skip_dict d s = Inr (skip_row (texts d) s)"
    by (simp add: skip_dict_def skip_row_def w)
  have u: "\<And>nv s. update_dict d nv s = Inr (update_row (texts d) nv s)"
    using assms(1) by (simp add: update_dict_def update_row_def DictWriter_writerow_def texts_update)
  show ?thesis
    by (simp add: process_dict_def process_row_def get_cell_texts assms choose_token_texts w s u Let_def
        split: option.splits)
qed

lemma ensure_columns_required:
  assumes "set [DATE_COL, TO_CCY_COL, TO_AMT_COL, FROM_CCY_COL, FROM_AMT_COL, NET_WORTH_AMT_COL]
             \<subseteq> set header"
  shows "ensure_columns required_cols header
           = Inr (if NET_WORTH_CCY_COL \<in> set header then header
                  else header @ [NET_WORTH_CCY_COL])"
  using assms by (simp add: required_cols_def)

lemma line_row_None: "col \<notin> set header \<Longrightarrow> line_row header line col = None"
  by (auto simp: line_row_def map_of_eq_None_iff dest: set_zip_leftD)

lemma reader_cells:
  assumes "length line = length header"
    and "fieldnames = header \<or> (fieldnames = header @ [c] \<and> c \<notin> set header)"
  shows "cells (DictReader_next fieldnames line)
           = (\<lambda>key. if fieldnames \<noteq> header \<and> key = c then Some None
                     else map_option Some (line_row header line key))"
    and "surplus (DictReader_next fieldnames line) = None"
  using assms by (auto simp: DictReader_next_def line_row_def fun_eq_iff zip_append1)

lemma reader_texts:
  assumes "length line = length header"
    and "fieldnames = header \<or> (fieldnames = header @ [c] \<and> c \<notin> set header)"
  shows "texts (DictReader_next fieldnames line) = line_row header line"
proof
  fix col
  show "texts (DictReader_next fieldnames line) col = line_row header line col"
    using assms
    by (cases "line_row header line col")
       (auto simp: texts_def reader_cells [OF assms] line_row_None)
qed

lemma reader_cell_string:
  assumes "length line = length header"
    and "fieldnames = header \<or> (fieldnames = header @ [c] \<and> c \<notin> set header)"
    and "col \<in> set header"
  shows "cells (DictReader_next fieldnames line) col \<noteq> Some None"
  using assms by (auto simp: reader_cells [OF assms(1,2)])

lemma reader_row:
  assumes "length line = length header"
    and "fieldnames = header \<or> (fieldnames = header @ [c] \<and> c \<notin> set header)"
    and "set [DATE_COL, TO_CCY_COL, TO_AMT_COL, FROM_CCY_COL, FROM_AMT_COL, NET_WORTH_AMT_COL]
             \<subseteq> set header"
  shows "process_dict cfg (DictReader_next fieldnames line) st
           = Inr (process_row cfg (line_row header line) st)"
proof -
  have "process_dict cfg (DictReader_next fieldnames line) st
      = Inr (process_row cfg (texts (DictReader_next fieldnames line)) st)"
    using assms(3)
    by (intro process_dict_row reader_cells(2) [OF assms(1,2)] reader_cell_string [OF assms(1,2)])
       simp_all
  then show ?thesis
    by (simp add: reader_texts [OF assms(1,2)])
qed

lemma read_rows_rows:
  assumes "\<forall>line \<in> set data. line \<noteq> [] \<longrightarrow> length line = length header"
    and "fieldnames = header \<or> (fieldnames = header @ [c] \<and> c \<notin> set header)"
    and "set [DATE_COL, TO_CCY_COL, TO_AMT_COL, FROM_CCY_COL, FROM_AMT_COL, NET_WORTH_AMT_COL]
             \<subseteq> set header"
  shows "read_rows cfg fieldnames data st
           = Finished (foldl (\<lambda>st row. process_row cfg row st) st
               (map (line_row header) (filter (\<lambda>line. line \<noteq> []) data)))"
  using assms(1)
proof (induction data arbitrary: st)
  case Nil
  show ?case by simp
next
  case (Cons line data)
  show ?case
  proof (cases "line = []")
    case True
    then show ?thesis using Cons by simp
  next
    case False
    then have "length line = length header" using Cons.prems by simp
    then have "process_dict cfg (DictReader_next fieldnames line) st
           = Inr (process_row cfg (line_row header line) st)"
      using assms(2,3) by (rule reader_row)
    then show ?thesis using False Cons by simp
  qed
qed

lemma run_file_rows:
  assumes "set [DATE_COL, TO_CCY_COL, TO_AMT_COL, FROM_CCY_COL, FROM_AMT_COL, NET_WORTH_AMT_COL]
             \<subseteq> set header"
    and "\<forall>line \<in> set (input_rows (header # data)). length line = length header"
  shows "run_file cfg (header # data)
           = Finished (run cfg (map (line_row header) (input_rows (header # data))))"
proof -
  let ?fieldnames = "if NET_WORTH_CCY_COL \<in> set header then header
                     else header @ [NET_WORTH_CCY_COL]"
  have f: "?fieldnames = header
      \<or> (?fieldnames = header @ [NET_WORTH_CCY_COL] \<and> NET_WORTH_CCY_COL \<notin> set header)"
    by simp
  have d: "\<forall>line \<in> set data. line \<noteq> [] \<longrightarrow> length line = length header"
    using assms(2) by (simp add: input_rows_def)
  have "read_rows cfg ?fieldnames data start
      = Finished (foldl (\<lambda>st row. process_row cfg row st) start
               (map (line_row header) (filter (\<lambda>line. line \<noteq> []) data)))"
    using d f assms(1) by (rule read_rows_rows)
  then show ?thesis
    by (simp add: run_file_def ensure_columns_required [OF assms(1)] run_def input_rows_def)
qed

text \<open>Under a header that names no column twice, the row of a line holds each field under its column.\<close>

lemma line_row_nth:
  assumes "distinct header" and "length line = length header" and "j < length header"
  shows "line_row header line (header ! j) = Some (line ! j)"
proof -
  have "distinct (map fst (rev (zip header line)))"
    using assms(1,2) by (simp add: rev_map [symmetric])
  moreover have "(header ! j, line ! j) \<in> set (rev (zip header line))"
    using assms(2,3) by (auto simp: set_zip)
  ultimately show ?thesis
    by (simp add: line_row_def)
qed

lemma example_header_distinct: "distinct example_header"
  by (simp add: example_header_def DATE_COL_def TO_CCY_COL_def TO_AMT_COL_def FROM_CCY_COL_def
      FROM_AMT_COL_def NET_WORTH_AMT_COL_def NET_WORTH_CCY_COL_def)

lemma example_header_required:
  "set [DATE_COL, TO_CCY_COL, TO_AMT_COL, FROM_CCY_COL, FROM_AMT_COL, NET_WORTH_AMT_COL]
     \<subseteq> set example_header"
  by (simp add: example_header_def)

lemma line_row_example:
  "line_row example_header (example_line date to_ccy to_amt from_ccy from_amt net)
     = (example_row date to_ccy to_amt from_ccy from_amt net)(NET_WORTH_CCY_COL \<mapsto> [])"
  by (auto simp: line_row_def example_header_def example_line_def example_row_def fun_eq_iff
      DATE_COL_def TO_CCY_COL_def TO_AMT_COL_def FROM_CCY_COL_def FROM_AMT_COL_def
      NET_WORTH_AMT_COL_def NET_WORTH_CCY_COL_def)

lemma row_get_upd_ccy:
  "col \<noteq> NET_WORTH_CCY_COL \<Longrightarrow> row_get (row(NET_WORTH_CCY_COL \<mapsto> c)) col = row_get row col"
  by (simp add: row_get_def)

lemma priced_line_written:
  "row_written example_config
     (line_row example_header
        (example_line ''2024-03-05 23:59:59'' ''STX;1770845'' ''2'' ''BTC'' ''7'' []))
     NET_WORTH_AMT_COL = Some ''3.00000000''"
proof -
  let ?row = "line_row example_header
        (example_line ''2024-03-05 23:59:59'' ''STX;1770845'' ''2'' ''BTC'' ''7'' [])"
  let ?cand = "\<lparr>token_code = ''STX;1770845'', amt_raw = ''2'', mode = Price_mode\<rparr>"
  have g: "row_get ?row DATE_COL = ''2024-03-05 23:59:59''"
      "row_get ?row TO_CCY_COL = ''STX;1770845''"
      "row_get ?row TO_AMT_COL = ''2''"
      "row_get ?row NET_WORTH_AMT_COL = []"
    by (simp_all add: line_row_example row_get_upd_ccy cols_not_net_worth net_worth_cols_distinct
        row_get_example)
  have h1: "\<not> net_worth_nonzero ?row"
    by (simp add: net_worth_nonzero_def g safe_float_blank strip_empty float_eq_def)
  have h2: "select_candidate example_config ?row = Some ?cand"
    by (simp add: select_candidate_def g example_in_token_config)
  have h5: "\<not> float_eq (safe_float (Some (amt_raw ?cand)) (Fin 0 0)) (Fin 0 0)"
    by (simp add: safe_float_two float_eq_def)
  have h3: "mode ?cand = Price_mode"
    by simp
  have "run example_config [?row] = update_row ?row (Fin 3 0) start"
    unfolding run_single
    by (simp add: process_row_priced [OF h1 h2 h5 h3] g
        parse_datetime_utc_example isoformat_example example_lookup safe_float_two float_mul_2_15)
  then show ?thesis
    by (simp add: row_written_def update_row_fields format_8f_3 start_def net_worth_cols_distinct)
qed

text \<open>
  Claim C4, as amended. For every input whose header names no column twice and has
  the six columns the loop reads, and whose rows each have as many fields as the
  header, the run ends without an exception and is the run of the loop over the
  rows of the lines; the rows written are as many as the rows read and come in the
  same order: the i-th row written is the i-th row read, as it is or with new
  values in the columns \<^verbatim>\<open>Net Worth Amount\<close> and \<^verbatim>\<open>Net Worth Currency\<close>; under every
  other column of the header it has the field the line has there, whatever
  happened to the row.
\<close>

theorem coverage_and_frame:
  assumes "distinct header"
    and "set [DATE_COL, TO_CCY_COL, TO_AMT_COL, FROM_CCY_COL, FROM_AMT_COL, NET_WORTH_AMT_COL]
             \<subseteq> set header"
    and "\<forall>line \<in> set (input_rows (header # data)). length line = length header"
  shows "run_file cfg (header # data)
           = Finished (run cfg (map (line_row header) (input_rows (header # data))))
       \<and> length (output_rows (run_file cfg (header # data))) = length (input_rows (header # data))
       \<and> (\<forall>i. i < length (input_rows (header # data))
             \<longrightarrow> output_rows (run_file cfg (header # data)) ! i
                   = row_written cfg (line_row header (input_rows (header # data) ! i)))
       \<and> (\<forall>i j. i < length (input_rows (header # data)) \<and> j < length header
                 \<and> header ! j \<noteq> NET_WORTH_AMT_COL \<and> header ! j \<noteq> NET_WORTH_CCY_COL
             \<longrightarrow> (output_rows (run_file cfg (header # data)) ! i) (header ! j)
                   = Some (input_rows (header # data) ! i ! j))"
proof -
  have "line_row header (input_rows (header # data) ! i) (header ! j)
      = Some (input_rows (header # data) ! i ! j)"
    if "i < length (input_rows (header # data))" and "j < length header" for i j
  proof -
    have "length (input_rows (header # data) ! i) = length header"
      using assms(3) that(1) by simp
    with assms(1) show ?thesis
      using that(2) by (rule line_row_nth)
  qed
  then show ?thesis
    by (simp add: run_file_rows [OF assms(2,3)] run_written row_written_frame)
qed

theorem coverage_and_frame_witness:
  "distinct example_header
   \<and> set [DATE_COL, TO_CCY_COL, TO_AMT_COL, FROM_CCY_COL, FROM_AMT_COL, NET_WORTH_AMT_COL]
     \<subseteq> set example_header
   \<and> input_rows
        [example_header,
         example_line ''2024-03-05 23:59:59'' ''STX;1770845'' ''2'' ''BTC'' ''7'' [],
         [],
         example_line ''no date'' ''BTC'' ''1'' ''ETH'' ''9'' []]
       = [example_line ''2024-03-05 23:59:59'' ''STX;1770845'' ''2'' ''BTC'' ''7'' [],
          example_line ''no date'' ''BTC'' ''1'' ''ETH'' ''9'' []]
   \<and> length (example_line ''2024-03-05 23:59:59'' ''STX;1770845'' ''2'' ''BTC'' ''7'' [])
       = length example_header
   \<and> length (example_line ''no date'' ''BTC'' ''1'' ''ETH'' ''9'' []) = length example_header
   \<and> length (output_rows (run_file example_config
        [example_header,
         example_line ''2024-03-05 23:59:59'' ''STX;1770845'' ''2'' ''BTC'' ''7'' [],
         [],
         example_line ''no date'' ''BTC'' ''1'' ''ETH'' ''9'' []])) = 2
   \<and> (output_rows (run_file example_config
        [example_header,
         example_line ''2024-03-05 23:59:59'' ''STX;1770845'' ''2'' ''BTC'' ''7'' [],
         [],
         example_line ''no date'' ''BTC'' ''1'' ''ETH'' ''9'' []]) ! 0) TO_AMT_COL = Some ''2''
   \<and> (output_rows (run_file example_config
        [example_header,
         example_line ''2024-03-05 23:59:59'' ''STX;1770845'' ''2'' ''BTC'' ''7'' [],
         [],
         example_line ''no date'' ''BTC'' ''1'' ''ETH'' ''9'' []]) ! 0) NET_WORTH_AMT_COL
       = Some ''3.00000000''
   \<and> (output_rows (run_file example_config
        [example_header,
         example_line ''2024-03-05 23:59:59'' ''STX;1770845'' ''2'' ''BTC'' ''7'' [],
         [],
         example_line ''no date'' ''BTC'' ''1'' ''ETH'' ''9'' []]) ! 1) DATE_COL = Some ''no date''"
proof -
  let ?l1 = "example_line ''2024-03-05 23:59:59'' ''STX;1770845'' ''2'' ''BTC'' ''7'' []"
  let ?l2 = "example_line ''no date'' ''BTC'' ''1'' ''ETH'' ''9'' []"
  let ?data = "[?l1, [], ?l2]"
  have rows: "input_rows (example_header # ?data) = [?l1, ?l2]"
    by (simp add: input_rows_def example_line_def)
  have len: "length ?l1 = length example_header" "length ?l2 = length example_header"
    by (simp_all add: example_line_def example_header_def)
  have h2: "\<forall>line \<in> set (input_rows (example_header # ?data)). length line = length example_header"
    using len by (simp add: rows)
  note t = coverage_and_frame [OF example_header_distinct example_header_required h2,
      of example_config]
  have "length (output_rows (run_file example_config (example_header # ?data)))
      = length (input_rows (example_header # ?data))"
    using t by blast
  then have n: "length (output_rows (run_file example_config (example_header # ?data))) = 2"
    by (simp add: rows)
  have i0: "(0::nat) < length (input_rows (example_header # ?data))"
    and i1: "(1::nat) < length (input_rows (example_header # ?data))"
    by (simp_all add: rows)
  have j2: "(2::nat) < length example_header
      \<and> example_header ! 2 \<noteq> NET_WORTH_AMT_COL \<and> example_header ! 2 \<noteq> NET_WORTH_CCY_COL"
    and j0: "(0::nat) < length example_header
      \<and> example_header ! 0 \<noteq> NET_WORTH_AMT_COL \<and> example_header ! 0 \<noteq> NET_WORTH_CCY_COL"
    by (simp_all add: example_header_def cols_not_net_worth)
  have f: "example_header ! 2 = TO_AMT_COL" "example_header ! 0 = DATE_COL"
    by (simp_all add: example_header_def)
  have g: "input_rows (example_header # ?data) ! 0 ! 2 = ''2''"
      "input_rows (example_header # ?data) ! 1 ! 0 = ''no date''"
    unfolding rows by (simp_all add: example_line_def)
  have "(output_rows (run_file example_config (example_header # ?data)) ! 0) (example_header ! 2)
      = Some (input_rows (example_header # ?data) ! 0 ! 2)"
    using t i0 j2 by blast
  then have r0: "(output_rows (run_file example_config (example_header # ?data)) ! 0) TO_AMT_COL
      = Some ''2''"
    by (simp only: f g)
  have "(output_rows (run_file example_config (example_header # ?data)) ! 1) (example_header ! 0)
      = Some (input_rows (example_header # ?data) ! 1 ! 0)"
    using t i1 j0 by blast
  then have r1: "(output_rows (run_file example_config (example_header # ?data)) ! 1) DATE_COL
      = Some ''no date''"
    by (simp only: f g)
  have "output_rows (run_file example_config (example_header # ?data)) ! 0
      = row_written example_config
          (line_row example_header (input_rows (example_header # ?data) ! 0))"
    using t i0 by blast
  then have "output_rows (run_file example_config (example_header # ?data)) ! 0
      = row_written example_config (line_row example_header ?l1)"
    by (simp add: rows)
  then have r2: "(output_rows (run_file example_config (example_header # ?data)) ! 0)
      NET_WORTH_AMT_COL = Some ''3.00000000''"
    by (simp only: priced_line_written)
  show ?thesis
    using example_header_distinct example_header_required rows len n r0 r1 r2 by simp
qed

text \<open>A line longer than the header: whatever the loop decides for it, writing it raises.\<close>

lemma long_line_raises:
  assumes "length fieldnames < length line"
  shows "process_dict cfg (DictReader_next fieldnames line) st = Inl ValueError"
proof -
  let ?d = "DictReader_next fieldnames line"
  have s: "surplus ?d \<noteq> None"
    using assms by (simp add: DictReader_next_def)
  have "cells ?d DATE_COL \<noteq> Some None"
    using assms by (auto simp: DictReader_next_def)
  then have "get_cell ?d DATE_COL \<noteq> None"
    by (cases "cells ?d DATE_COL") (auto simp: get_cell_def)
  then show ?thesis
    using s
    by (auto simp: process_dict_def DictWriter_writerow_def skip_dict_def update_dict_def Let_def
        split: option.splits)
qed

lemma ensure_columns_example: "ensure_columns required_cols example_header = Inr example_header"
  by (simp add: required_cols_def example_header_def)

lemma written_start: "written start = []"
  by (simp add: start_def)

lemma example_line_no_candidate:
  "process_row example_config
     (line_row example_header (example_line date ''BTC'' to_amt ''ETH'' from_amt [])) st
   = writerow (line_row example_header (example_line date ''BTC'' to_amt ''ETH'' from_amt [])) st"
proof (rule process_row_no_candidate)
  show "\<not> net_worth_nonzero
      (line_row example_header (example_line date ''BTC'' to_amt ''ETH'' from_amt []))"
    by (simp add: net_worth_nonzero_def line_row_example row_get_upd_ccy net_worth_cols_distinct
        row_get_example safe_float_blank strip_empty float_eq_def)
  show "select_candidate example_config
      (line_row example_header (example_line date ''BTC'' to_amt ''ETH'' from_amt [])) = None"
    by (simp add: select_candidate_def line_row_example row_get_upd_ccy cols_not_net_worth
        row_get_example in_token_config_def example_config_def source_config_def
        TOKEN_CONFIG_def STABLE_TOKENS_def)
qed

text \<open>
  The claim as stated fails: of three rows, the second with one field more than the
  header, the first is written and the run is ended by the \<^verbatim>\<open>ValueError\<close> of
  \<^verbatim>\<open>writerow\<close>; the second row and the third are never written.
\<close>

theorem long_line_aborts:
  "run_file example_config
     [example_header,
      example_line ''2024-03-05 23:59:59'' ''BTC'' ''1'' ''ETH'' ''9'' [],
      example_line ''2024-03-05 23:59:59'' ''USDC;7483231'' ''5'' ''BTC'' ''1'' [] @ [''surplus''],
      example_line ''2024-03-05 23:59:59'' ''BTC'' ''1'' ''ETH'' ''9'' []]
     = Aborted ValueError
         [line_row example_header (example_line ''2024-03-05 23:59:59'' ''BTC'' ''1'' ''ETH'' ''9'' [])]
   \<and> length (input_rows
       [example_header,
        example_line ''2024-03-05 23:59:59'' ''BTC'' ''1'' ''ETH'' ''9'' [],
        example_line ''2024-03-05 23:59:59'' ''USDC;7483231'' ''5'' ''BTC'' ''1'' [] @ [''surplus''],
        example_line ''2024-03-05 23:59:59'' ''BTC'' ''1'' ''ETH'' ''9'' []]) = 3
   \<and> length (output_rows (run_file example_config
       [example_header,
        example_line ''2024-03-05 23:59:59'' ''BTC'' ''1'' ''ETH'' ''9'' [],
        example_line ''2024-03-05 23:59:59'' ''USDC;7483231'' ''5'' ''BTC'' ''1'' [] @ [''surplus''],
        example_line ''2024-03-05 23:59:59'' ''BTC'' ''1'' ''ETH'' ''9'' []])) = 1"
proof -
  let ?l1 = "example_line ''2024-03-05 23:59:59'' ''BTC'' ''1'' ''ETH'' ''9'' []"
  let ?long = "example_line ''2024-03-05 23:59:59'' ''USDC;7483231'' ''5'' ''BTC'' ''1'' [] @ [''surplus'']"
  have l1: "?l1 \<noteq> []" "length ?l1 = length example_header"
    by (simp_all add: example_line_def example_header_def)
  have long: "?long \<noteq> []" "length example_header < length ?long"
    by (simp_all add: example_line_def example_header_def)
  have "process_dict example_config (DictReader_next example_header ?l1) start
      = Inr (process_row example_config (line_row example_header ?l1) start)"
    using l1(2) _ example_header_required by (rule reader_row) simp
  then have p1: "process_dict example_config (DictReader_next example_header ?l1) start
      = Inr (writerow (line_row example_header ?l1) start)"
    by (simp only: example_line_no_candidate)
  have p2: "process_dict example_config (DictReader_next example_header ?long)
      (writerow (line_row example_header ?l1) start) = Inl ValueError"
    using long(2) by (rule long_line_raises)
  have "read_rows example_config example_header [?l1, ?long, ?l1] start
      = Aborted ValueError [line_row example_header ?l1]"
    using l1(1) long(1) by (simp add: p1 p2 writerow_fields written_start)
  then have r: "run_file example_config [example_header, ?l1, ?long, ?l1]
      = Aborted ValueError [line_row example_header ?l1]"
    by (simp add: run_file_def ensure_columns_example)
  have n: "length (input_rows [example_header, ?l1, ?long, ?l1]) = 3"
    using l1(1) long(1) by (simp add: input_rows_def)
  show ?thesis
    using r n by simp
qed

lemma select_candidate_upd:
  "select_candidate cfg (row(NET_WORTH_AMT_COL \<mapsto> a, NET_WORTH_CCY_COL \<mapsto> c))
     = select_candidate cfg row"
  by (simp add: select_candidate_def Let_def row_get_upd_other cols_not_net_worth)

text \<open>
  A row that was updated and whose new net worth amount reads as zero is updated
  again when the engine meets it a second time.
\<close>

lemma updated_again:
  assumes u: "row_updated cfg row" and z: "\<not> net_worth_nonzero (row_written cfg row)"
  shows "row_updated cfg (row_written cfg row)"
proof -
  obtain nv where w: "row_written cfg row
      = row(NET_WORTH_AMT_COL \<mapsto> format_8f nv, NET_WORTH_CCY_COL \<mapsto> NET_WORTH_CCY_VALUE)"
    using row_written_cases [of cfg row] u by blast
  let ?w = "row(NET_WORTH_AMT_COL \<mapsto> format_8f nv, NET_WORTH_CCY_COL \<mapsto> NET_WORTH_CCY_VALUE)"
  have nz: "\<not> net_worth_nonzero row"
    using u nonzero_not_updated by blast
  have zw: "\<not> net_worth_nonzero ?w"
    using z w by simp
  have upd: "updated_rows (process_row cfg row start) = 1"
    using u by (simp add: row_updated_def run_single)
  show ?thesis
  proof (cases "select_candidate cfg row")
    case None
    then have "process_row cfg row start = writerow row start"
      using nz by (simp add: process_row_no_candidate)
    then show ?thesis using upd by (simp add: writerow_fields start_def)
  next
    case (Some cand)
    then have sw: "select_candidate cfg ?w = Some cand"
      by (simp add: select_candidate_upd)
    show ?thesis
    proof (cases "float_eq (safe_float (Some (amt_raw cand)) (Fin 0 0)) (Fin 0 0)")
      case True
      then have "process_row cfg row start = skip_row row start"
        using nz Some by (simp add: process_row_zero_amount)
      then show ?thesis using upd by (simp add: skip_row_fields start_def)
    next
      case amt: False
      show ?thesis
      proof (cases "mode cand")
        case Stable_mode
        have "process_row cfg ?w start
            = update_row ?w (safe_float (Some (amt_raw cand)) (Fin 0 0)) start"
          using zw sw amt Stable_mode by (rule process_row_stable)
        then show ?thesis
          using w by (simp add: row_updated_def run_single update_row_fields start_def)
      next
        case Price_mode
        note p = process_row_priced [OF nz Some amt Price_mode, of start]
        note pw = process_row_priced [OF zw sw amt Price_mode, of start]
        have d: "row_get ?w DATE_COL = row_get row DATE_COL"
          by (simp add: row_get_upd_other cols_not_net_worth)
        show ?thesis
        proof (cases "parse_datetime_utc (row_get row DATE_COL)")
          case None
          then have "process_row cfg row start = skip_row row start"
            using p by simp
          then show ?thesis using upd by (simp add: skip_row_fields start_def)
        next
          case dt: (Some dt_obj)
          show ?thesis
          proof (cases "lookup_price cfg (token_code cand) (isoformat (date_of dt_obj))")
            case None
            then have "process_row cfg row start = skip_row row start"
              using p dt by simp
            then show ?thesis using upd by (simp add: skip_row_fields start_def)
          next
            case (Some price)
            then have "process_row cfg ?w start
                = update_row ?w (float_mul (safe_float (Some (amt_raw cand)) (Fin 0 0)) price) start"
              using pw dt d by simp
            then show ?thesis
              using w by (simp add: row_updated_def run_single update_row_fields start_def)
          qed
        qed
      qed
    qed
  qed
qed

lemma rerun_updated_iff:
  "row_updated cfg (row_written cfg row)
     \<longleftrightarrow> row_updated cfg row \<and> \<not> net_worth_nonzero (row_written cfg row)"
proof
  assume a: "row_updated cfg (row_written cfg row)"
  then have "\<not> net_worth_nonzero (row_written cfg row)"
    using nonzero_not_updated by blast
  moreover have "row_updated cfg row"
  proof (rule ccontr)
    assume "\<not> row_updated cfg row"
    then have "row_written cfg row = row" by (rule row_written_unchanged)
    then show False using a \<open>\<not> row_updated cfg row\<close> by simp
  qed
  ultimately show "row_updated cfg row \<and> \<not> net_worth_nonzero (row_written cfg row)"
    by blast
next
  assume "row_updated cfg row \<and> \<not> net_worth_nonzero (row_written cfg row)"
  then show "row_updated cfg (row_written cfg row)"
    using updated_again by blast
qed

lemma rerun_updated:
  "updated_rows (run cfg (written (run cfg rows)))
     = length (filter (\<lambda>r. row_updated cfg r \<and> \<not> net_worth_nonzero (row_written cfg r)) rows)"
  by (simp add: run_written run_updated filter_map o_def rerun_updated_iff)

lemma strip_3: "strip ''3.00000000'' = ''3.00000000''"
  by (simp add: str_eval)

lemma float_of_str_3_8: "float_of_str ''3.00000000'' = Some (Fin 3 0)"
  by (simp add: float_eval str_eval)

lemma safe_float_3: "safe_float (Some ''3.00000000'') (Fin 0 0) = Fin 3 0"
  by (simp add: safe_float_def Let_def strip_3 float_of_str_3_8)

lemma strip_tiny: "strip ''0.000000001'' = ''0.000000001''"
  by (simp add: str_eval)

lemma float_of_str_tiny: "float_of_str ''0.000000001'' = Some (Fin 4835703278458517 (- 82))"
  by (simp add: float_eval str_eval)

lemma safe_float_tiny: "safe_float (Some ''0.000000001'') (Fin 0 0) = Fin 4835703278458517 (- 82)"
  by (simp add: safe_float_def Let_def strip_tiny float_of_str_tiny)

lemma format_8f_tiny: "format_8f (Fin 4835703278458517 (- 82)) = ''0.00000000''"
  by (simp add: float_eval str_eval)

lemma strip_zeros: "strip ''0.00000000'' = ''0.00000000''"
  by (simp add: str_eval)

lemma float_of_str_zeros: "float_of_str ''0.00000000'' = Some (Fin 0 0)"
  by (simp add: float_eval str_eval)

lemma safe_float_zeros: "safe_float (Some ''0.00000000'') (Fin 0 0) = Fin 0 0"
  by (simp add: safe_float_def Let_def strip_zeros float_of_str_zeros)

lemma row_get_upd_amt:
  "row_get (row(NET_WORTH_AMT_COL \<mapsto> a, NET_WORTH_CCY_COL \<mapsto> c)) NET_WORTH_AMT_COL = a"
  by (simp add: row_get_def net_worth_cols_distinct)

lemma priced_example_run:
  "run example_config [example_row ''2024-03-05 23:59:59'' ''STX;1770845'' ''2'' ''BTC'' ''7'' []]
     = update_row (example_row ''2024-03-05 23:59:59'' ''STX;1770845'' ''2'' ''BTC'' ''7'' [])
         (Fin 3 0) start"
proof -
  let ?row = "example_row ''2024-03-05 23:59:59'' ''STX;1770845'' ''2'' ''BTC'' ''7'' []"
  let ?cand = "\<lparr>token_code = ''STX;1770845'', amt_raw = ''2'', mode = Price_mode\<rparr>"
  have h1: "\<not> net_worth_nonzero ?row"
    by (rule net_blank_is_zero)
  have h2: "select_candidate example_config ?row = Some ?cand"
    by (simp add: select_candidate_def row_get_example example_in_token_config)
  have h5: "\<not> float_eq (safe_float (Some (amt_raw ?cand)) (Fin 0 0)) (Fin 0 0)"
    by (simp add: safe_float_two float_eq_def)
  have h3: "mode ?cand = Price_mode"
    by simp
  show ?thesis
    unfolding run_single
    by (simp add: process_row_priced [OF h1 h2 h5 h3] row_get_example
        parse_datetime_utc_example isoformat_example example_lookup safe_float_two float_mul_2_15)
qed

lemma tiny_example_run:
  "run example_config
     [example_row ''2024-03-05 23:59:59'' ''USDC;7483231'' ''0.000000001'' ''BTC'' ''1'' []]
     = update_row
         (example_row ''2024-03-05 23:59:59'' ''USDC;7483231'' ''0.000000001'' ''BTC'' ''1'' [])
         (Fin 4835703278458517 (- 82)) start"
proof -
  let ?row = "example_row ''2024-03-05 23:59:59'' ''USDC;7483231'' ''0.000000001'' ''BTC'' ''1'' []"
  let ?cand = "\<lparr>token_code = ''USDC;7483231'', amt_raw = ''0.000000001'', mode = Stable_mode\<rparr>"
  have h1: "\<not> net_worth_nonzero ?row"
    by (rule net_blank_is_zero)
  have h2: "select_candidate example_config ?row = Some ?cand"
    by (simp add: select_candidate_def row_get_example example_in_token_config
        example_stable_tokens)
  have h5: "\<not> float_eq (safe_float (Some (amt_raw ?cand)) (Fin 0 0)) (Fin 0 0)"
    by (simp add: safe_float_tiny float_eq_def)
  have h3: "mode ?cand = Stable_mode"
    by simp
  show ?thesis
    unfolding run_single
    by (simp add: process_row_stable [OF h1 h2 h5 h3] safe_float_tiny)
qed

text \<open>
  Claim C5, as amended. A row whose net worth amount reads as a float that is not
  zero is written as it is and changes neither counter; a blank or unparsable net
  worth reads as 0.0. A second run of the engine over the rows the first run wrote
  counts as updated exactly the rows the first run updated with an amount that
  reads as zero (each is valued again); so it counts no row updated if every
  amount the first run wrote reads as a float that is not zero.
\<close>

theorem already_priced_pass_through:
  "(net_worth_nonzero row
      \<longrightarrow> written (process_row cfg row st) = written st @ [row]
        \<and> updated_rows (process_row cfg row st) = updated_rows st
        \<and> skipped_rows (process_row cfg row st) = skipped_rows st)
   \<and> (strip s = [] \<or> float_of_str (strip s) = None
        \<longrightarrow> safe_float (Some s) (Fin 0 0) = Fin 0 0)
   \<and> updated_rows (run cfg (written (run cfg rows)))
       = length (filter (\<lambda>r. row_updated cfg r \<and> \<not> net_worth_nonzero (row_written cfg r)) rows)
   \<and> ((\<forall>r \<in> set rows. row_updated cfg r \<longrightarrow> net_worth_nonzero (row_written cfg r))
        \<longrightarrow> updated_rows (run cfg (written (run cfg rows))) = 0)"
proof -
  have a: "net_worth_nonzero row
      \<longrightarrow> written (process_row cfg row st) = written st @ [row]
        \<and> updated_rows (process_row cfg row st) = updated_rows st
        \<and> skipped_rows (process_row cfg row st) = skipped_rows st"
    by (simp add: process_row_already_priced writerow_fields)
  have b: "strip s = [] \<or> float_of_str (strip s) = None
        \<longrightarrow> safe_float (Some s) (Fin 0 0) = Fin 0 0"
    by (auto simp: safe_float_blank safe_float_unparsable)
  have c: "(\<forall>r \<in> set rows. row_updated cfg r \<longrightarrow> net_worth_nonzero (row_written cfg r))
        \<longrightarrow> updated_rows (run cfg (written (run cfg rows))) = 0"
    by (auto simp: rerun_updated filter_empty_conv)
  show ?thesis
    using a b c rerun_updated [of cfg rows] by blast
qed

theorem already_priced_pass_through_witness:
  "net_worth_nonzero
     (example_row ''2024-03-05 23:59:59'' ''STX;1770845'' ''2'' ''BTC'' ''7'' ''3.00000000'')
   \<and> written (process_row example_config
        (example_row ''2024-03-05 23:59:59'' ''STX;1770845'' ''2'' ''BTC'' ''7'' ''3.00000000'') start)
       = [example_row ''2024-03-05 23:59:59'' ''STX;1770845'' ''2'' ''BTC'' ''7'' ''3.00000000'']
   \<and> updated_rows (process_row example_config
        (example_row ''2024-03-05 23:59:59'' ''STX;1770845'' ''2'' ''BTC'' ''7'' ''3.00000000'') start) = 0
   \<and> skipped_rows (process_row example_config
        (example_row ''2024-03-05 23:59:59'' ''STX;1770845'' ''2'' ''BTC'' ''7'' ''3.00000000'') start) = 0
   \<and> updated_rows (run example_config
        [example_row ''2024-03-05 23:59:59'' ''STX;1770845'' ''2'' ''BTC'' ''7'' []]) = 1
   \<and> updated_rows (run example_config (written (run example_config
        [example_row ''2024-03-05 23:59:59'' ''STX;1770845'' ''2'' ''BTC'' ''7'' []]))) = 0"
proof -
  let ?done = "example_row ''2024-03-05 23:59:59'' ''STX;1770845'' ''2'' ''BTC'' ''7'' ''3.00000000''"
  let ?row = "example_row ''2024-03-05 23:59:59'' ''STX;1770845'' ''2'' ''BTC'' ''7'' []"
  have nz: "net_worth_nonzero ?done"
    by (simp add: net_worth_nonzero_def row_get_example safe_float_3 float_eq_def)
  note t1 = already_priced_pass_through [of ?done example_config start "[]" "[]"]
  have p1: "written (process_row example_config ?done start) = written start @ [?done]
        \<and> updated_rows (process_row example_config ?done start) = updated_rows start
        \<and> skipped_rows (process_row example_config ?done start) = skipped_rows start"
    using t1 nz by blast
  have w: "row_written example_config ?row
      = ?row(NET_WORTH_AMT_COL \<mapsto> ''3.00000000'', NET_WORTH_CCY_COL \<mapsto> NET_WORTH_CCY_VALUE)"
    by (simp add: row_written_def priced_example_run update_row_fields format_8f_3 start_def)
  have h: "\<forall>r \<in> set [?row]. row_updated example_config r
      \<longrightarrow> net_worth_nonzero (row_written example_config r)"
    by (simp add: w net_worth_nonzero_def row_get_upd_amt safe_float_3 float_eq_def)
  note t2 = already_priced_pass_through [of ?done example_config start "[]" "[?row]"]
  have p2: "updated_rows (run example_config (written (run example_config [?row]))) = 0"
    using t2 h by blast
  have p3: "updated_rows (run example_config [?row]) = 1"
    by (simp add: priced_example_run update_row_fields start_def)
  show ?thesis
    using nz p1 p2 p3 by (simp add: start_def)
qed

text \<open>
  The claim as stated fails: the stable amount \<^verbatim>\<open>0.000000001\<close> is written as the
  net worth amount \<^verbatim>\<open>0.00000000\<close>, which reads as zero, and a second run over the
  output counts the row updated once more.
\<close>

theorem rerun_updates_again:
  "updated_rows (run example_config
      [example_row ''2024-03-05 23:59:59'' ''USDC;7483231'' ''0.000000001'' ''BTC'' ''1'' []]) = 1
   \<and> row_written example_config
        (example_row ''2024-03-05 23:59:59'' ''USDC;7483231'' ''0.000000001'' ''BTC'' ''1'' [])
        NET_WORTH_AMT_COL = Some ''0.00000000''
   \<and> updated_rows (run example_config (written (run example_config
        [example_row ''2024-03-05 23:59:59'' ''USDC;7483231'' ''0.000000001'' ''BTC'' ''1'' []]))) = 1"
proof -
  let ?row = "example_row ''2024-03-05 23:59:59'' ''USDC;7483231'' ''0.000000001'' ''BTC'' ''1'' []"
  have u: "updated_rows (run example_config [?row]) = 1"
    by (simp add: tiny_example_run update_row_fields start_def)
  have w: "row_written example_config ?row
      = ?row(NET_WORTH_AMT_COL \<mapsto> ''0.00000000'', NET_WORTH_CCY_COL \<mapsto> NET_WORTH_CCY_VALUE)"
    by (simp add: row_written_def tiny_example_run update_row_fields format_8f_tiny start_def)
  have z: "\<not> net_worth_nonzero (row_written example_config ?row)"
    by (simp add: w net_worth_nonzero_def row_get_upd_amt safe_float_zeros float_eq_def)
  have "row_updated example_config ?row"
    using u by (simp add: row_updated_def)
  then have "updated_rows (run example_config (written (run example_config [?row]))) = 1"
    using z by (simp add: rerun_updated)
  then show ?thesis
    using u w by (simp add: net_worth_cols_distinct)
qed

section \<open>The loaders\<close>

lemma for_each_error:
  "for_each body xs s = Inl e \<Longrightarrow> (\<And>x t e'. body x t = Inl e' \<Longrightarrow> P e') \<Longrightarrow> P e"
  by (induction xs arbitrary: s) (auto split: sum.splits)

lemma dict_get_error: "dict_get v k = Inl e \<Longrightarrow> e = AttributeError"
  by (cases v) auto

lemma dict_get_field_of: "is_dict v \<Longrightarrow> dict_get v k = Inr (field_of v k)"
  by (cases v) auto

lemma dict_get_not_dict: "\<not> is_dict v \<Longrightarrow> dict_get v k = Inl AttributeError"
  by (cases v) auto

lemma xy_body_error: "xy_body L entry s = Inl e \<Longrightarrow> e = AttributeError"
  by (cases s) (auto split: sum.splits if_splits option.splits dest: dict_get_error)

lemma py_iter_error: "py_iter v = Inl e \<Longrightarrow> e = TypeError"
  by (cases v) auto

lemma xy_entries_structure:
  "xy_entries doc = Inl e \<longleftrightarrow> e = Unexpected_JSON_structure \<and> \<not> is_dict doc \<and> \<not> is_list doc"
  by (cases doc) auto

lemma load_price_map_xy_structure:
  "load_price_map_xy L doc = Inl Unexpected_JSON_structure \<longleftrightarrow> \<not> is_dict doc \<and> \<not> is_list doc"
proof
  assume a: "load_price_map_xy L doc = Inl Unexpected_JSON_structure"
  show "\<not> is_dict doc \<and> \<not> is_list doc"
  proof (cases "xy_entries doc")
    case (Inl e)
    then show ?thesis using xy_entries_structure by blast
  next
    case (Inr entries)
    show ?thesis
    proof (cases "py_iter entries")
      case (Inl e)
      then have "e = TypeError" by (rule py_iter_error)
      then show ?thesis using a Inr Inl by (simp add: load_price_map_xy_def)
    next
      case es: (Inr es)
      then have "for_each (xy_body L) es (Map.empty, []) = Inl Unexpected_JSON_structure"
        using a Inr by (simp add: load_price_map_xy_def)
      then have "Unexpected_JSON_structure = AttributeError"
        by (rule for_each_error) (rule xy_body_error)
      then show ?thesis by simp
    qed
  qed
next
  assume "\<not> is_dict doc \<and> \<not> is_list doc"
  then have "xy_entries doc = Inl Unexpected_JSON_structure"
    using xy_entries_structure by blast
  then show "load_price_map_xy L doc = Inl Unexpected_JSON_structure"
    by (simp add: load_price_map_xy_def)
qed

text \<open>
  Claim C10. For a document that is a dict without the key \<^verbatim>\<open>data\<close>,
  \<open>load_price_map_xy\<close> raises nothing and returns the empty price map (and prints no
  warning); it raises its error for an unexpected structure exactly when the
  document is neither a dict nor a list.
\<close>

theorem xy_keyless_dict:
  "(map_of kvs ''data'' = None \<longrightarrow> load_price_map_xy L (JDict kvs) = Inr (Map.empty, []))
   \<and> (load_price_map_xy L doc = Inl Unexpected_JSON_structure
        \<longleftrightarrow> \<not> is_dict doc \<and> \<not> is_list doc)"
  by (simp add: load_price_map_xy_structure) (simp add: load_price_map_xy_def)

theorem xy_keyless_dict_witness:
  "map_of [(''success'', JBool True)] ''data'' = None
   \<and> load_price_map_xy example_lib (JDict [(''success'', JBool True)]) = Inr (Map.empty, [])
   \<and> load_price_map_xy example_lib (JInt 5) = Inl Unexpected_JSON_structure
   \<and> load_price_map_xy example_lib (JDict []) \<noteq> Inl Unexpected_JSON_structure"
proof -
  have k: "map_of [(''success'', JBool True)] ''data'' = None"
    by simp
  note t1 = xy_keyless_dict [of "[(''success'', JBool True)]" example_lib "JInt 5"]
  note t2 = xy_keyless_dict [of "[(''success'', JBool True)]" example_lib "JDict []"]
  have "load_price_map_xy example_lib (JDict [(''success'', JBool True)]) = Inr (Map.empty, [])"
    using t1 k by blast
  moreover have "load_price_map_xy example_lib (JInt 5) = Inl Unexpected_JSON_structure"
    using t1 by simp
  moreover have "load_price_map_xy example_lib (JDict []) \<noteq> Inl Unexpected_JSON_structure"
    using t2 by simp
  ultimately show ?thesis
    using k by blast
qed

lemma xy_body_kinds:
  "xy_kind L entry = Not_a_dict \<Longrightarrow> xy_body L entry (pm, log) = Inl AttributeError"
  "xy_kind L entry = Field_missing \<Longrightarrow> xy_body L entry (pm, log) = Inr (pm, log)"
  "xy_kind L entry = Unparsable \<Longrightarrow> xy_body L entry (pm, log) = Inr (pm, log @ [xy_warning L entry])"
  "xy_kind L entry = Loads \<Longrightarrow> xy_body L entry (pm, log) = Inr (xy_store L pm entry, log)"
  by (auto simp: xy_kind_def xy_store_def xy_warning_def xy_try_def dict_get_field_of
      dict_get_not_dict split: if_splits option.splits sum.splits)

lemma is_dict_kind: "is_dict entry \<Longrightarrow> xy_kind L entry \<noteq> Not_a_dict"
  by (simp add: xy_kind_def)

lemma xy_loop:
  "list_all is_dict es \<Longrightarrow>
   for_each (xy_body L) es (pm, log)
     = Inr (foldl (xy_store L) pm (filter (\<lambda>e. xy_kind L e = Loads) es),
            log @ map (xy_warning L) (filter (\<lambda>e. xy_kind L e = Unparsable) es))"
proof (induction es arbitrary: pm log)
  case Nil
  then show ?case by simp
next
  case (Cons e es)
  then have d: "is_dict e" and rest: "list_all is_dict es" by simp_all
  show ?case
  proof (cases "xy_kind L e")
    case Not_a_dict
    then show ?thesis using d is_dict_kind by blast
  next
    case Field_missing
    then show ?thesis using Cons.IH [OF rest] by (simp add: xy_body_kinds del: xy_body.simps)
  next
    case Unparsable
    then show ?thesis using Cons.IH [OF rest] by (simp add: xy_body_kinds del: xy_body.simps)
  next
    case Loads
    then show ?thesis using Cons.IH [OF rest] by (simp add: xy_body_kinds del: xy_body.simps)
  qed
qed

lemma float_truediv_two: "\<exists>y. float_truediv x (Fin 1 1) = Inr y"
  by (simp add: float_truediv_def Let_def)

lemma mag_body_kinds:
  "ohlc_kind L entry = Not_a_dict \<Longrightarrow> mag_body L entry (pm, log) = Inl AttributeError"
  "ohlc_kind L entry = Field_missing \<Longrightarrow> mag_body L entry (pm, log) = Inr (pm, log)"
  "ohlc_kind L entry = Unparsable \<Longrightarrow> mag_body L entry (pm, log) = Inr (pm, log @ [MAG_warning entry])"
  "ohlc_kind L entry = Loads \<Longrightarrow> mag_body L entry (pm, log) = Inr (ohlc_store L pm entry, log)"
proof -
  show "ohlc_kind L entry = Not_a_dict \<Longrightarrow> mag_body L entry (pm, log) = Inl AttributeError"
    by (auto simp: ohlc_kind_def dict_get_not_dict split: if_splits)
  show "ohlc_kind L entry = Field_missing \<Longrightarrow> mag_body L entry (pm, log) = Inr (pm, log)"
    by (auto simp: ohlc_kind_def dict_get_field_of split: if_splits)
  show "ohlc_kind L entry = Unparsable \<Longrightarrow> mag_body L entry (pm, log) = Inr (pm, log @ [MAG_warning entry])"
    by (auto simp: ohlc_kind_def ohlc_try_def dict_get_field_of
        split: if_splits option.splits sum.splits)
  show "ohlc_kind L entry = Loads \<Longrightarrow> mag_body L entry (pm, log) = Inr (ohlc_store L pm entry, log)"
    using float_truediv_two
    by (auto simp: ohlc_kind_def ohlc_store_def ohlc_try_def dict_get_field_of
        split: if_splits option.splits sum.splits) (metis sum.distinct(1))
qed

lemma is_dict_ohlc_kind: "is_dict entry \<Longrightarrow> ohlc_kind L entry \<noteq> Not_a_dict"
  by (simp add: ohlc_kind_def)

lemma mag_loop:
  "list_all is_dict es \<Longrightarrow>
   for_each (mag_body L) es (pm, log)
     = Inr (foldl (ohlc_store L) pm (filter (\<lambda>e. ohlc_kind L e = Loads) es),
            log @ map MAG_warning (filter (\<lambda>e. ohlc_kind L e = Unparsable) es))"
proof (induction es arbitrary: pm log)
  case Nil
  then show ?case by simp
next
  case (Cons e es)
  then have d: "is_dict e" and rest: "list_all is_dict es" by simp_all
  show ?case
  proof (cases "ohlc_kind L e")
    case Not_a_dict
    then show ?thesis using d is_dict_ohlc_kind by blast
  next
    case Field_missing
    then show ?thesis using Cons.IH [OF rest] by (simp add: mag_body_kinds del: mag_body.simps)
  next
    case Unparsable
    then show ?thesis using Cons.IH [OF rest] by (simp add: mag_body_kinds del: mag_body.simps)
  next
    case Loads
    then show ?thesis using Cons.IH [OF rest] by (simp add: mag_body_kinds del: mag_body.simps)
  qed
qed

lemma load_xy_list:
  "list_all is_dict es \<Longrightarrow>
   load_price_map_xy L (JList es)
     = Inr (foldl (xy_store L) Map.empty (filter (\<lambda>e. xy_kind L e = Loads) es),
            map (xy_warning L) (filter (\<lambda>e. xy_kind L e = Unparsable) es))"
  by (simp add: load_price_map_xy_def xy_loop)

lemma load_ohlc_list:
  "list_all is_dict es \<Longrightarrow>
   load_mag_xrp_daily_map L (JList es)
     = Inr (foldl (ohlc_store L) Map.empty (filter (\<lambda>e. ohlc_kind L e = Loads) es),
            map MAG_warning (filter (\<lambda>e. ohlc_kind L e = Unparsable) es))"
  by (simp add: load_mag_xrp_daily_map_def mag_loop)

lemma list_all_filter: "list_all P es \<Longrightarrow> list_all P (filter Q es)"
  by (induction es) auto

lemma filter_kind_other: "k \<noteq> k' \<Longrightarrow> filter (\<lambda>e. f e = k') (filter (\<lambda>e. f e = k) es) = []"
  by (induction es) auto

lemma load_xy_good_only:
  "list_all is_dict es \<Longrightarrow>
   load_price_map_xy L (JList (filter (\<lambda>e. xy_kind L e = Loads) es))
     = Inr (foldl (xy_store L) Map.empty (filter (\<lambda>e. xy_kind L e = Loads) es), [])"
  by (simp add: load_xy_list list_all_filter filter_kind_other)

lemma load_ohlc_good_only:
  "list_all is_dict es \<Longrightarrow>
   load_mag_xrp_daily_map L (JList (filter (\<lambda>e. ohlc_kind L e = Loads) es))
     = Inr (foldl (ohlc_store L) Map.empty (filter (\<lambda>e. ohlc_kind L e = Loads) es), [])"
  by (simp add: load_ohlc_list list_all_filter filter_kind_other)

lemma strip_Z_append: "strip_Z (s @ ''Z'') = s"
  by (simp add: strip_Z_def)

lemma iso_date_key_Z:
  "iso_date_key L (s @ ''Z'')
     = (case fromisoformat L s of None \<Rightarrow> None | Some dt_obj \<Rightarrow> Some (isoformat (date_of dt_obj)))"
  by (simp add: iso_date_key_def strip_Z_append)

lemmas lib_eval = two_digits_def iso_date_def iso_time_def example_fromisoformat_def
  example_lib_def is_digit_def digit_val_def nat_of_digits_def is_leap_def days_in_month_def
  valid_date_def

lemma fromiso_late: "example_fromisoformat ''2024-03-05T23:59:59'' = Some (DateTime (Date 2024 3 5) 23 59 59)"
  by (simp add: lib_eval)

lemma fromiso_early: "example_fromisoformat ''2024-03-05T00:00:01'' = Some (DateTime (Date 2024 3 5) 0 0 1)"
  by (simp add: lib_eval)

lemma fromiso_bad: "example_fromisoformat ''yesterday'' = None"
  by (simp add: lib_eval)

lemma iso_key_late: "iso_date_key example_lib ''2024-03-05T23:59:59Z'' = Some ''2024-03-05''"
  by (simp add: iso_date_key_def strip_Z_def example_lib_def fromiso_late isoformat_example)

lemma iso_key_early: "iso_date_key example_lib ''2024-03-05T00:00:01Z'' = Some ''2024-03-05''"
  by (simp add: iso_date_key_def strip_Z_def example_lib_def fromiso_early isoformat_example)

lemma iso_key_bad: "iso_date_key example_lib ''yesterday'' = None"
  by (simp add: iso_date_key_def strip_Z_def example_lib_def fromiso_bad)

lemma strip_examples:
  "strip ''2024-03-05T23:59:59Z'' = ''2024-03-05T23:59:59Z''"
  "strip ''2024-03-05T00:00:01Z'' = ''2024-03-05T00:00:01Z''"
  "strip ''yesterday'' = ''yesterday''"
  by (simp_all add: strip_def strip_by_def is_space_def)

lemma example_entry_fields:
  "is_dict (example_entry ts price)"
  "field_of (example_entry ts price) ''x'' = JStr ts"
  "field_of (example_entry ts price) ''y'' = price"
  by (simp_all add: example_entry_def)

lemma kind_good_late:
  "xy_kind example_lib (example_entry ''2024-03-05T23:59:59Z'' (JFloat (Fin 3 (- 1)))) = Loads"
  by (simp add: xy_kind_def example_entry_fields strip_examples iso_key_late)

lemma kind_missing:
  "xy_kind example_lib (JDict [(''x'', JStr ''2024-03-05T00:00:01Z'')]) = Field_missing"
  by (simp add: xy_kind_def)

lemma kind_bad:
  "xy_kind example_lib (example_entry ''yesterday'' (JFloat (Fin 1 1))) = Unparsable"
  by (simp add: xy_kind_def example_entry_fields strip_examples iso_key_bad)

lemma kind_good_early:
  "xy_kind example_lib (example_entry ''2024-03-05T00:00:01Z'' (JStr ''2.0'')) = Loads"
  by (simp add: xy_kind_def example_entry_fields strip_examples iso_key_early float_of_str_2)

lemma store_good_late:
  "xy_store example_lib pm (example_entry ''2024-03-05T23:59:59Z'' (JFloat (Fin 3 (- 1))))
     = pm(''2024-03-05'' \<mapsto> Fin 3 (- 1))"
  by (simp add: xy_store_def xy_try_def example_entry_fields strip_examples iso_key_late)

lemma store_good_early:
  "xy_store example_lib pm (example_entry ''2024-03-05T00:00:01Z'' (JStr ''2.0''))
     = pm(''2024-03-05'' \<mapsto> Fin 1 1)"
  by (simp add: xy_store_def xy_try_def example_entry_fields strip_examples iso_key_early
      float_of_str_2)

lemma warning_bad:
  "xy_warning example_lib (example_entry ''yesterday'' (JFloat (Fin 1 1))) = XY_warning ''yesterday''"
  by (simp add: xy_warning_def example_entry_fields strip_examples)

text \<open>
  Claim C8, as amended. In an xy series and in an OHLC series whose entries are
  all objects, an entry whose timestamp or price cannot be parsed is skipped with
  a warning, an entry with a missing (or \<^verbatim>\<open>null\<close>) field is skipped without one, and
  the loader never raises: the map it returns is the map it returns for the series
  without the skipped entries, and the warnings are those of the unparsable
  entries, in order; a dict with the list under \<^verbatim>\<open>data\<close> loads like the list. A
  trailing \<^verbatim>\<open>Z\<close> is cut off before parsing and the key is the date part of the
  timestamp alone, so two timestamps of one day give one key: with the
  timestamps \<^verbatim>\<open>2024-03-05T23:59:59Z\<close> and \<^verbatim>\<open>2024-03-05T00:00:01Z\<close>, the key
  \<^verbatim>\<open>2024-03-05\<close>.
\<close>

theorem per_entry_resilience:
  assumes "list_all is_dict es"
  shows "(\<exists>pm. load_price_map_xy L (JList es)
                 = Inr (pm, map (xy_warning L) (filter (\<lambda>e. xy_kind L e = Unparsable) es))
              \<and> load_price_map_xy L (JList (filter (\<lambda>e. xy_kind L e = Loads) es)) = Inr (pm, []))
       \<and> (\<exists>pm. load_mag_xrp_daily_map L (JList es)
                 = Inr (pm, map MAG_warning (filter (\<lambda>e. ohlc_kind L e = Unparsable) es))
              \<and> load_mag_xrp_daily_map L (JList (filter (\<lambda>e. ohlc_kind L e = Loads) es))
                 = Inr (pm, []))
       \<and> (map_of kvs ''data'' = Some (JList es)
            \<longrightarrow> load_price_map_xy L (JDict kvs) = load_price_map_xy L (JList es))
       \<and> iso_date_key L (s @ ''Z'')
           = (case fromisoformat L s of
                None \<Rightarrow> None
              | Some dt_obj \<Rightarrow> Some (isoformat (date_of dt_obj)))
       \<and> (fromisoformat L s1 = Some dt1 \<and> fromisoformat L s2 = Some dt2
              \<and> date_of dt1 = date_of dt2
            \<longrightarrow> iso_date_key L (s1 @ ''Z'') = iso_date_key L (s2 @ ''Z''))
       \<and> iso_date_key example_lib ''2024-03-05T23:59:59Z'' = Some ''2024-03-05''
       \<and> iso_date_key example_lib ''2024-03-05T00:00:01Z'' = Some ''2024-03-05''"
proof -
  have xy: "\<exists>pm. load_price_map_xy L (JList es)
                 = Inr (pm, map (xy_warning L) (filter (\<lambda>e. xy_kind L e = Unparsable) es))
              \<and> load_price_map_xy L (JList (filter (\<lambda>e. xy_kind L e = Loads) es)) = Inr (pm, [])"
    using load_xy_list [OF assms] load_xy_good_only [OF assms] by blast
  have ohlc: "\<exists>pm. load_mag_xrp_daily_map L (JList es)
                 = Inr (pm, map MAG_warning (filter (\<lambda>e. ohlc_kind L e = Unparsable) es))
              \<and> load_mag_xrp_daily_map L (JList (filter (\<lambda>e. ohlc_kind L e = Loads) es))
                 = Inr (pm, [])"
    using load_ohlc_list [OF assms] load_ohlc_good_only [OF assms] by blast
  have data: "map_of kvs ''data'' = Some (JList es)
            \<longrightarrow> load_price_map_xy L (JDict kvs) = load_price_map_xy L (JList es)"
    by (simp add: load_price_map_xy_def)
  have trunc: "fromisoformat L s1 = Some dt1 \<and> fromisoformat L s2 = Some dt2
              \<and> date_of dt1 = date_of dt2
            \<longrightarrow> iso_date_key L (s1 @ ''Z'') = iso_date_key L (s2 @ ''Z'')"
    by (simp add: iso_date_key_Z)
  show ?thesis
    using xy ohlc data trunc iso_date_key_Z [of L s] iso_key_late iso_key_early by blast
qed

theorem per_entry_resilience_witness:
  "list_all is_dict
     [example_entry ''2024-03-05T23:59:59Z'' (JFloat (Fin 3 (- 1))),
      JDict [(''x'', JStr ''2024-03-05T00:00:01Z'')],
      example_entry ''yesterday'' (JFloat (Fin 1 1)),
      example_entry ''2024-03-05T00:00:01Z'' (JStr ''2.0'')]
   \<and> load_price_map_xy example_lib (JList
     [example_entry ''2024-03-05T23:59:59Z'' (JFloat (Fin 3 (- 1))),
      JDict [(''x'', JStr ''2024-03-05T00:00:01Z'')],
      example_entry ''yesterday'' (JFloat (Fin 1 1)),
      example_entry ''2024-03-05T00:00:01Z'' (JStr ''2.0'')])
     = Inr ([''2024-03-05'' \<mapsto> Fin 1 1], [XY_warning ''yesterday''])
   \<and> load_price_map_xy example_lib (JDict [(''success'', JBool True), (''data'', JList
     [example_entry ''2024-03-05T23:59:59Z'' (JFloat (Fin 3 (- 1))),
      JDict [(''x'', JStr ''2024-03-05T00:00:01Z'')],
      example_entry ''yesterday'' (JFloat (Fin 1 1)),
      example_entry ''2024-03-05T00:00:01Z'' (JStr ''2.0'')])])
     = Inr ([''2024-03-05'' \<mapsto> Fin 1 1], [XY_warning ''yesterday''])
   \<and> iso_date_key example_lib (''2024-03-05T23:59:59'' @ ''Z'')
     = iso_date_key example_lib (''2024-03-05T00:00:01'' @ ''Z'')"
proof -
  let ?a = "example_entry ''2024-03-05T23:59:59Z'' (JFloat (Fin 3 (- 1)))"
  let ?b = "JDict [(''x'', JStr ''2024-03-05T00:00:01Z'')]"
  let ?c = "example_entry ''yesterday'' (JFloat (Fin 1 1))"
  let ?d = "example_entry ''2024-03-05T00:00:01Z'' (JStr ''2.0'')"
  have h: "list_all is_dict [?a, ?b, ?c, ?d]"
    by (simp add: example_entry_fields)
  let ?kvs = "[(''success'', JBool True), (''data'', JList [?a, ?b, ?c, ?d])]"
  note t = per_entry_resilience [OF h, of example_lib ?kvs "[]"
      "''2024-03-05T23:59:59''" "DateTime (Date 2024 3 5) 23 59 59"
      "''2024-03-05T00:00:01''" "DateTime (Date 2024 3 5) 0 0 1"]
  have k: "map_of ?kvs ''data'' = Some (JList [?a, ?b, ?c, ?d])"
    by simp
  have dict: "load_price_map_xy example_lib (JDict ?kvs)
      = load_price_map_xy example_lib (JList [?a, ?b, ?c, ?d])"
    using t k by blast
  have "fromisoformat example_lib ''2024-03-05T23:59:59'' = Some (DateTime (Date 2024 3 5) 23 59 59)
      \<and> fromisoformat example_lib ''2024-03-05T00:00:01'' = Some (DateTime (Date 2024 3 5) 0 0 1)
      \<and> date_of (DateTime (Date 2024 3 5) 23 59 59) = date_of (DateTime (Date 2024 3 5) 0 0 1)"
    by (simp add: example_lib_def fromiso_late fromiso_early)
  with t have same: "iso_date_key example_lib (''2024-03-05T23:59:59'' @ ''Z'')
      = iso_date_key example_lib (''2024-03-05T00:00:01'' @ ''Z'')"
    by blast
  obtain pm where pm: "load_price_map_xy example_lib (JList [?a, ?b, ?c, ?d])
        = Inr (pm, map (xy_warning example_lib)
                 (filter (\<lambda>e. xy_kind example_lib e = Unparsable) [?a, ?b, ?c, ?d]))"
      "load_price_map_xy example_lib
         (JList (filter (\<lambda>e. xy_kind example_lib e = Loads) [?a, ?b, ?c, ?d])) = Inr (pm, [])"
    using t by blast
  have good: "filter (\<lambda>e. xy_kind example_lib e = Loads) [?a, ?b, ?c, ?d] = [?a, ?d]"
    by (simp add: kind_good_late kind_missing kind_bad kind_good_early)
  have bad: "filter (\<lambda>e. xy_kind example_lib e = Unparsable) [?a, ?b, ?c, ?d] = [?c]"
    by (simp add: kind_good_late kind_missing kind_bad kind_good_early)
  have "load_price_map_xy example_lib (JList [?a, ?d])
      = Inr ([''2024-03-05'' \<mapsto> Fin 1 1], [])"
    by (simp add: load_xy_list example_entry_fields kind_good_late kind_good_early
        store_good_late store_good_early)
  then have "pm = [''2024-03-05'' \<mapsto> Fin 1 1]"
    using pm(2) good by simp
  then have "load_price_map_xy example_lib (JList [?a, ?b, ?c, ?d])
      = Inr ([''2024-03-05'' \<mapsto> Fin 1 1], [XY_warning ''yesterday''])"
    using pm(1) bad by (simp add: warning_bad)
  then show ?thesis
    using h dict same by (simp only: simp_thms)
qed

text \<open>
  The claim as stated fails: an entry without a price is skipped and no warning
  is printed; and an entry that is no object ends the loading of the series.
\<close>

theorem missing_field_no_warning:
  "load_price_map_xy example_lib (JList [JDict [(''x'', JStr ''2024-03-05T00:00:01Z'')]])
     = Inr (Map.empty, [])
   \<and> load_price_map_xy example_lib
        (JList [JInt 5, example_entry ''2024-03-05T23:59:59Z'' (JFloat (Fin 3 (- 1)))])
     = Inl AttributeError"
  by (simp add: load_price_map_xy_def)

lemmas stats_eval = load_price_map_stats_def stats_body_def unpack2_def int_of_str_def
  is_number_space_def strip_by_def is_digit_def

text \<open>
  Claim C7 against the code. \<open>load_price_map_stats\<close> has no \<^verbatim>\<open>try\<close> around the
  conversions: with a timestamp that is no number before a well-formed entry the load
  ends in the \<^verbatim>\<open>ValueError\<close> of \<^verbatim>\<open>int("abc")\<close> and no map is returned, though
  the well-formed entry alone loads; likewise for an entry with one value and for
  a price that is \<^verbatim>\<open>null\<close>.
\<close>

theorem stats_malformed_entry_aborts:
  "load_price_map_stats (JDict [(''stats'', JList
      [JList [JStr ''abc'', JFloat (Fin 3 (- 1))],
       JList [JInt 1696723200000, JFloat (Fin 5 (- 1))]])]) = Inl ValueError
   \<and> load_price_map_stats (JDict [(''stats'', JList
      [JList [JInt 1696723200000, JFloat (Fin 5 (- 1))]])])
       = Inr [''2023-10-08'' \<mapsto> Fin 5 (- 1)]
   \<and> load_price_map_stats (JDict [(''stats'', JList
      [JList [JInt 1696723200000],
       JList [JInt 1696723200000, JFloat (Fin 5 (- 1))]])]) = Inl ValueError
   \<and> load_price_map_stats (JDict [(''stats'', JList
      [JList [JInt 1696723200000, JNull],
       JList [JInt 1696723200000, JFloat (Fin 5 (- 1))]])]) = Inl TypeError"
proof -
  have f: "float_of_int 1696723200000 = Inr (Fin 828478125 11)"
    by (simp add: float_eval)
  have d: "float_truediv (Fin 828478125 11) (Fin 125 3) = Inr (Fin 6627825 8)"
    by (simp add: float_eval)
  have u: "utcfromtimestamp (Fin 6627825 8) = Inr (DateTime (Date 2023 10 8) 0 0 0)"
    by (simp add: float_eval date_eval cong: let_weak_cong)
  have i: "isoformat (Date 2023 10 8) = ''2023-10-08''"
    by (simp add: str_eval date_eval)
  show ?thesis
    by (simp add: stats_eval f d u i)
qed

end
